theory Spec2Isabelle
  imports Main "HOL-Library.Multiset" "HOL-Library.Sublist"
begin

section \<open>JavaScript values used by the plugin\<close>

text \<open>
  Strings are \<open>string\<close>.  A JavaScript \<open>Set\<close> is kept as the list of its members in
  insertion order, which is the order in which spreading or \<open>Array.from\<close> reads it back.
  A thrown exception is a value of type \<open>error\<close>; a function that may throw returns
  \<open>error + 'a\<close>.
\<close>

datatype error = TypeError string | Error string

datatype 'a js_opt = JsNull | JsUndefined | Defined 'a

definition startsWith :: "string \<Rightarrow> string \<Rightarrow> bool" where
  "startsWith s p = (take (length p) s = p)"

definition endsWith :: "string \<Rightarrow> string \<Rightarrow> bool" where
  "endsWith s p = (length p \<le> length s \<and> drop (length s - length p) s = p)"

definition set_add :: "'a list \<Rightarrow> 'a \<Rightarrow> 'a list" where
  "set_add s x = (if x \<in> set s then s else s @ [x])"

definition new_Set :: "'a list \<Rightarrow> 'a list" where
  "new_Set xs = foldl set_add [] xs"

text \<open>ASCII lower case, for case-insensitive matching.\<close>

definition lower_ascii :: "char \<Rightarrow> char" where
  "lower_ascii c =
     (case map_of (zip ''ABCDEFGHIJKLMNOPQRSTUVWXYZ'' ''abcdefghijklmnopqrstuvwxyz'') c of
        Some l \<Rightarrow> l
      | None \<Rightarrow> c)"

text \<open>\<open>s.split(sep)\<close> for a non-empty separator string, as at every call site.\<close>

fun split_str :: "string \<Rightarrow> string \<Rightarrow> string list" where
  "split_str sep [] = [[]]"
| "split_str sep (c # cs) =
     (if sep \<noteq> [] \<and> prefix sep (c # cs)
      then [] # split_str sep (drop (length sep) (c # cs))
      else (case split_str sep cs of [] \<Rightarrow> [[c]] | w # ws \<Rightarrow> (c # w) # ws))"

text \<open>\<open>parts.join(sep)\<close>\<close>

fun join_str :: "string \<Rightarrow> string list \<Rightarrow> string" where
  "join_str sep [] = []"
| "join_str sep [x] = x"
| "join_str sep (x # y # ys) = x @ sep @ join_str sep (y # ys)"

text \<open>The first occurrence of \<open>pat\<close> in a string: the text before it and the text after it.\<close>

fun find_first :: "string \<Rightarrow> string \<Rightarrow> (string \<times> string) option" where
  "find_first pat [] = (if pat = [] then Some ([], []) else None)"
| "find_first pat (c # cs) =
     (if prefix pat (c # cs) then Some ([], drop (length pat) (c # cs))
      else map_option (\<lambda>(pre, post). (c # pre, post)) (find_first pat cs))"

text \<open>
  The replacement text of \<open>String.prototype.replace\<close>: \<open>$$\<close> is a dollar sign, \<open>$&\<close> the
  matched text, \<open>$`\<close> the text before the match and \<open>$'\<close> the text after it.  A string
  pattern has no capture groups, so every other character stands for itself.
\<close>

fun expand_replacement :: "string \<Rightarrow> string \<Rightarrow> string \<Rightarrow> string \<Rightarrow> string" where
  "expand_replacement pre matched post [] = []"
| "expand_replacement pre matched post [c] = [c]"
| "expand_replacement pre matched post (c # d # rest) =
     (if c = CHR ''$'' \<and> d = CHR ''$'' then CHR ''$'' # expand_replacement pre matched post rest
      else if c = CHR ''$'' \<and> d = CHR ''&'' then matched @ expand_replacement pre matched post rest
      else if c = CHR ''$'' \<and> d = CHR 0x60 then pre @ expand_replacement pre matched post rest
      else if c = CHR ''$'' \<and> d = CHR 0x27 then post @ expand_replacement pre matched post rest
      else c # expand_replacement pre matched post (d # rest))"

text \<open>\<open>s.replace(pat, repl)\<close> with a string pattern: only the first occurrence is replaced.\<close>

definition replace_first :: "string \<Rightarrow> string \<Rightarrow> string \<Rightarrow> string" where
  "replace_first pat repl s =
     (case find_first pat s of
        None \<Rightarrow> s
      | Some (pre, post) \<Rightarrow> pre @ expand_replacement pre pat post repl @ post)"

text \<open>\<open>xs.map(f)\<close> and \<open>xs.reduce(f, init)\<close> when the callback may throw: the first
  exception ends the loop.\<close>

fun map_err :: "('a \<Rightarrow> error + 'b) \<Rightarrow> 'a list \<Rightarrow> error + 'b list" where
  "map_err f [] = Inr []"
| "map_err f (x # xs) =
     (case f x of
        Inl e \<Rightarrow> Inl e
      | Inr y \<Rightarrow> (case map_err f xs of Inl e \<Rightarrow> Inl e | Inr ys \<Rightarrow> Inr (y # ys)))"

fun reduce_err :: "('b \<Rightarrow> 'a \<Rightarrow> error + 'b) \<Rightarrow> 'b \<Rightarrow> 'a list \<Rightarrow> error + 'b" where
  "reduce_err f acc [] = Inr acc"
| "reduce_err f acc (x # xs) =
     (case f acc x of Inl e \<Rightarrow> Inl e | Inr acc' \<Rightarrow> reduce_err f acc' xs)"

text \<open>
  A plain object is the list of its own properties, in the order in which
  \<open>Object.values\<close> enumerates them.  \<open>key in obj\<close> also finds the properties every plain
  object inherits from \<open>Object.prototype\<close>.
\<close>

definition Object_prototype_names :: "string list" where
  "Object_prototype_names =
     [''constructor'', ''__defineGetter__'', ''__defineSetter__'', ''hasOwnProperty'',
      ''__lookupGetter__'', ''__lookupSetter__'', ''isPrototypeOf'', ''propertyIsEnumerable'',
      ''toString'', ''valueOf'', ''__proto__'', ''toLocaleString'']"

definition in_op :: "string \<Rightarrow> (string \<times> 'v) list \<Rightarrow> bool" where
  "in_op key obj = (key \<in> fst ` set obj \<or> key \<in> set Object_prototype_names)"

definition Object_values :: "(string \<times> 'v) list \<Rightarrow> 'v list" where
  "Object_values obj = map snd obj"

text \<open>Reading an array index or destructuring an array position: \<open>None\<close> is \<open>undefined\<close>.\<close>

definition nth_or_undefined :: "'a list \<Rightarrow> nat \<Rightarrow> 'a option" where
  "nth_or_undefined xs i = (if i < length xs then Some (xs ! i) else None)"

text \<open>A value inside a template literal, and a value joined by \<open>Array.prototype.join\<close>.\<close>

definition template_str :: "string option \<Rightarrow> string" where
  "template_str v = (case v of None \<Rightarrow> ''undefined'' | Some s \<Rightarrow> s)"

definition join_undefined :: "string option list \<Rightarrow> string" where
  "join_undefined parts = concat (map (\<lambda>v. case v of None \<Rightarrow> [] | Some s \<Rightarrow> s) parts)"

fun interleave :: "'a \<Rightarrow> 'a list \<Rightarrow> 'a list" where
  "interleave sep [] = []"
| "interleave sep [x] = [x]"
| "interleave sep (x # y # ys) = x # sep # interleave sep (y # ys)"

section \<open>combinePerms\<close>

text \<open>
  \<open>combinePerms(...permissions)\<close> receives any number of arguments, each a permission
  string, \<open>undefined\<close>, or an array of such (nested to any depth).
\<close>

datatype perm_arg = Perm string | Undefined | Nested "perm_arg list"

text \<open>\<open>permissions.flat(Infinity)\<close>: \<open>None\<close> is an \<open>undefined\<close> entry.\<close>

fun flat :: "perm_arg list \<Rightarrow> string option list" where
  "flat [] = []"
| "flat (Perm p # rest) = Some p # flat rest"
| "flat (Undefined # rest) = None # flat rest"
| "flat (Nested ys # rest) = flat ys @ flat rest"

text \<open>\<open>.filter((perm) => typeof perm !== 'undefined')\<close>\<close>

fun defined_perms :: "string option list \<Rightarrow> string list" where
  "defined_perms [] = []"
| "defined_perms (None # rest) = defined_perms rest"
| "defined_perms (Some p # rest) = p # defined_perms rest"

record perm_sets =
  perms :: "string list"
  xperms :: "string list"

text \<open>The reducer: a \<open>!\<close>-prefixed entry adds the rest of it (\<open>perm.slice(1)\<close>) to
  \<open>xperms\<close>, any other entry is added to \<open>perms\<close>.\<close>

definition perm_step :: "perm_sets \<Rightarrow> string \<Rightarrow> perm_sets" where
  "perm_step acc perm =
     (if startsWith perm ''!''
      then acc\<lparr>xperms := set_add (xperms acc) (drop 1 perm)\<rparr>
      else acc\<lparr>perms := set_add (perms acc) perm\<rparr>)"

definition combinePerms :: "perm_arg list \<Rightarrow> string list" where
  "combinePerms permissions =
     (let acc = foldl perm_step \<lparr>perms = [], xperms = []\<rparr> (defined_perms (flat permissions))
      in filter (\<lambda>p. p \<notin> set (xperms acc)) (perms acc))"

section \<open>The manifest\<close>

text \<open>
  The manifest is a JSON object.  Every field is optional: \<open>None\<close> is an absent
  (\<open>undefined\<close>) field.  Only the fields that the modelled functions read or write are
  kept, with the types the manifest schemas give them; an entry of
  \<open>web_accessible_resources\<close> is a path (the MV2 shape) or a rule object with its
  \<open>resources\<close> and \<open>matches\<close> (the MV3 shape).
\<close>

record content_script =
  cs_matches :: "string list option"
  cs_js :: "string list option"
  cs_css :: "string list option"

record background =
  service_worker :: "string option"
  scripts :: "string list option"
  bg_page :: "string option"
  bg_type :: "string option"

datatype icon_spec = IconPath string | IconMap "(string \<times> string) list"

record action =
  default_popup :: "string option"
  default_icon :: "icon_spec option"

record options_ui =
  ui_page :: "string option"

datatype war_entry = WarPath string | WarRule "string list" "string list"

record manifest =
  manifest_version :: "int option"
  name :: "string option"
  version :: "string option"
  description :: "string option"
  default_locale :: "string option"
  background :: "background option"
  content_scripts :: "content_script list option"
  host_permissions :: "string list option"
  permissions :: "string list option"
  options_page :: "string option"
  options_ui :: "options_ui option"
  devtools_page :: "string option"
  action :: "action option"
  browser_action :: "action option"
  page_action :: "action option"
  chrome_url_overrides :: "(string \<times> string) list option"
  icons :: "icon_spec option"
  web_accessible_resources :: "war_entry list option"

text \<open>\<open>isPresent(x)\<close>: the value is neither \<open>undefined\<close> nor \<open>null\<close>.  A field of this
  model is \<open>None\<close> when it is absent; a JSON \<open>null\<close> is not among its values.\<close>

definition isPresent :: "'a option \<Rightarrow> bool" where
  "isPresent x = (x \<noteq> None)"

text \<open>The empty object \<open>{}\<close>.\<close>

definition empty_manifest :: manifest where
  "empty_manifest =
     \<lparr> manifest_version = None, name = None, version = None, description = None,
       default_locale = None, background = None, content_scripts = None,
       host_permissions = None, permissions = None, options_page = None,
       options_ui = None, devtools_page = None, action = None, browser_action = None,
       page_action = None, chrome_url_overrides = None, icons = None,
       web_accessible_resources = None \<rparr>"

text \<open>What \<open>explorer.load\<close> (cosmiconfig) returns for a manifest file.\<close>

record config_result =
  isEmpty :: bool
  config :: manifest
  filepath :: string

section \<open>Library functions\<close>

text \<open>
  The functions the plugin imports from Node and from npm packages are parameters of the
  model: \<open>path.relative\<close>, \<open>path.join\<close>, \<open>path.basename\<close>, \<open>path.dirname\<close>, \<open>slash\<close>,
  \<open>glob.hasMagic\<close>, \<open>glob.sync(pattern, {cwd})\<close>, the \<open>origin\<close> of \<open>new URL(s)\<close>
  (\<open>None\<close> when the constructor throws), \<open>unescape\<close>, \<open>fs.existsSync\<close>,
  \<open>explorer.load\<close>, \<open>JSONPath\<close> and the compiled JSON-schema \<open>validator\<close>.
\<close>

record env =
  path_relative :: "string \<Rightarrow> string \<Rightarrow> string"
  path_join :: "string \<Rightarrow> string \<Rightarrow> string"
  path_basename :: "string \<Rightarrow> string"
  path_dirname :: "string \<Rightarrow> string"
  slash :: "string \<Rightarrow> string"
  glob_hasMagic :: "string \<Rightarrow> bool"
  glob_sync :: "string \<Rightarrow> string \<Rightarrow> string list"
  url_origin :: "string \<Rightarrow> string option"
  unescape :: "string \<Rightarrow> string"
  existsSync :: "string \<Rightarrow> bool"
  explorer_load :: "string \<Rightarrow> error + config_result"
  JSONPath :: "string \<Rightarrow> manifest \<Rightarrow> string list"
  validator :: "manifest \<Rightarrow> bool"

section \<open>reduceToRecord\<close>

text \<open>
  Rollup's \<open>input\<close> record maps entry names to file names.  The entry name of a file is
  its path relative to \<open>srcDir\<close> without the last extension:
  \<open>relative(srcDir, filename).split('.').slice(0, -1).join('.')\<close>.
\<close>

type_synonym input_record = "(string \<times> string) list"

definition entry_name :: "env \<Rightarrow> string \<Rightarrow> string \<Rightarrow> string" where
  "entry_name env dir filename =
     join_str ''.'' (butlast (split_str ''.'' (path_relative env dir filename)))"

text \<open>The error message names the file and, between quotes, the entry it would
  overwrite, \<open>inputRecord[name]\<close>.  For an inherited property that is the text of a
  built-in, which is written \<open>[inherited]\<close> here.\<close>

definition overwrite_message :: "string \<Rightarrow> string option \<Rightarrow> string" where
  "overwrite_message filename old =
     ''Script files with different extensions should not share names:''
       @ [CHR 0x0A, CHR 0x0A, CHR 0x22] @ filename @ [CHR 0x22, CHR 0x0A]
       @ ''will overwrite'' @ [CHR 0x0A, CHR 0x22]
       @ (case old of Some f \<Rightarrow> f | None \<Rightarrow> ''[inherited]'') @ [CHR 0x22]"

text \<open>The reducer that \<open>reduceToRecord(srcDir)\<close> returns for a directory.\<close>

definition reducer :: "env \<Rightarrow> string \<Rightarrow> input_record \<Rightarrow> string \<Rightarrow> error + input_record" where
  "reducer env dir inputRecord filename =
     (let nm = entry_name env dir filename
      in if in_op nm inputRecord
         then Inl (Error (overwrite_message filename (map_of inputRecord nm)))
         else Inr (inputRecord @ [(nm, filename)]))"

text \<open>\<open>reduceToRecord(srcDir)\<close> throws for a \<open>null\<close> or \<open>undefined\<close> directory.\<close>

definition reduceToRecord ::
  "env \<Rightarrow> string js_opt \<Rightarrow> error + (input_record \<Rightarrow> string \<Rightarrow> error + input_record)" where
  "reduceToRecord env srcDir =
     (case srcDir of
        Defined dir \<Rightarrow> Inr (reducer env dir)
      | _ \<Rightarrow> Inl (TypeError ''srcDir is null or undefined''))"

text \<open>\<open>files.reduce(reduceToRecord(srcDir), inputRecord)\<close>: the argument
  \<open>reduceToRecord(srcDir)\<close> is evaluated before the loop starts.\<close>

definition reduce_files ::
  "env \<Rightarrow> string js_opt \<Rightarrow> input_record \<Rightarrow> string list \<Rightarrow> error + input_record" where
  "reduce_files env srcDir inputRecord files =
     (case reduceToRecord env srcDir of
        Inl e \<Rightarrow> Inl e
      | Inr f \<Rightarrow> reduce_err f inputRecord files)"

section \<open>convertMatchPatterns\<close>

text \<open>\<open>rest.split(/(:\*)/)\<close>: the pieces of \<open>rest\<close> between the occurrences of \<open>:*\<close>, with
  the captured \<open>:*\<close> between each two of them.\<close>

definition split_wild_port :: "string \<Rightarrow> string list" where
  "split_wild_port rest = interleave '':*'' (split_str '':*'' rest)"

definition convertMatchPatterns :: "env \<Rightarrow> string \<Rightarrow> error + string" where
  "convertMatchPatterns env m =
     (case split_str ''://'' m of
        scheme # rest # _ \<Rightarrow>
          (let parts = split_wild_port rest;
               a = nth_or_undefined parts 0;
               port = nth_or_undefined parts 1;
               b = nth_or_undefined parts 2;
               isWildPort = (port = Some '':*'');
               frag = (if isWildPort then template_str a @ '':3333'' @ template_str b else rest)
           in case url_origin env (''http://'' @ frag) of
                None \<Rightarrow> Inl (TypeError ''Invalid URL'')
              | Some origin \<Rightarrow>
                  (case split_str ''://'' origin of
                     _ # base # _ \<Rightarrow>
                       (let xy = split_str '':3333'' base;
                            x = nth_or_undefined xy 0;
                            y = nth_or_undefined xy 1;
                            final = (if isWildPort then join_undefined [x, port, y] else base)
                        in Inr (unescape env (scheme @ ''://'' @ final @ ''/*'')))
                   | _ \<Rightarrow> Inl (TypeError ''Cannot read properties of undefined (reading split)'')))
      | _ \<Rightarrow> Inl (TypeError ''Cannot read properties of undefined (reading split)''))"

section \<open>deriveFiles\<close>

record derive_options =
  opt_contentScripts :: bool

record derived_files =
  css :: "string list"
  contentScripts :: "string list"
  js :: "string list"
  html :: "string list"
  img :: "string list"
  others :: "string list"

text \<open>The six arrays a derivation builds before \<open>validate\<close>; an entry \<open>None\<close> is a
  value that is not a string (an \<open>undefined\<close> field).\<close>

record collected_files =
  raw_css :: "string option list"
  raw_contentScripts :: "string option list"
  raw_js :: "string option list"
  raw_html :: "string option list"
  raw_img :: "string option list"
  raw_others :: "string option list"

definition has_suffix :: "string list \<Rightarrow> string \<Rightarrow> bool" where
  "has_suffix sufs f = (\<exists>s\<in>set sufs. endsWith f s)"

text \<open>\<open>/\.[jt]sx?$/\<close>, \<open>/\.html?$/\<close> and
  \<open>/\.(jpe?g|png|svg|tiff?|gif|webp|bmp|ico)$/i\<close>\<close>

definition is_script :: "string \<Rightarrow> bool" where
  "is_script f = has_suffix [''.js'', ''.jsx'', ''.ts'', ''.tsx''] f"

definition is_html :: "string \<Rightarrow> bool" where
  "is_html f = has_suffix [''.htm'', ''.html''] f"

definition is_image :: "string \<Rightarrow> bool" where
  "is_image f =
     has_suffix [''.jpg'', ''.jpeg'', ''.png'', ''.svg'', ''.tif'', ''.tiff'', ''.gif'',
                 ''.webp'', ''.bmp'', ''.ico''] (map lower_ascii f)"

text \<open>One step of the reduction that expands glob patterns.  \<open>glob.hasMagic\<close> throws
  for a pattern that is not a string.\<close>

definition expand_glob :: "env \<Rightarrow> string \<Rightarrow> string list \<Rightarrow> string option \<Rightarrow> error + string list" where
  "expand_glob env srcDir r x =
     (case x of
        None \<Rightarrow> Inl (TypeError ''invalid pattern'')
      | Some p \<Rightarrow>
          if glob_hasMagic env p
          then Inr (r @ map (replace_first srcDir []) (glob_sync env p srcDir))
          else Inr (r @ [p]))"

definition locale_files :: "manifest \<Rightarrow> string list" where
  "locale_files m = (if default_locale m \<noteq> None then [''_locales/**/messages.json''] else [])"

text \<open>\<open>get(manifest, 'content_scripts', []).reduce((r, { js = [] }) => [...r, ...js], [])\<close>
  and the same for \<open>css\<close>.\<close>

definition content_script_js :: "manifest \<Rightarrow> string list" where
  "content_script_js m =
     concat (map (\<lambda>c. case cs_js c of None \<Rightarrow> [] | Some files \<Rightarrow> files)
                 (case content_scripts m of None \<Rightarrow> [] | Some cs \<Rightarrow> cs))"

definition content_script_css :: "manifest \<Rightarrow> string list" where
  "content_script_css m =
     concat (map (\<lambda>c. case cs_css c of None \<Rightarrow> [] | Some files \<Rightarrow> files)
                 (case content_scripts m of None \<Rightarrow> [] | Some cs \<Rightarrow> cs))"

text \<open>\<open>Object.values\<close> of an icon field with default \<open>{}\<close>: the values of a map, and the
  one-character strings of a string.\<close>

definition icon_values :: "icon_spec option \<Rightarrow> string list" where
  "icon_values i =
     (case i of
        None \<Rightarrow> []
      | Some (IconMap sizes) \<Rightarrow> Object_values sizes
      | Some (IconPath p) \<Rightarrow> map (\<lambda>c. [c]) p)"

text \<open>lodash \<open>difference(files, css, contentScripts, js, html, img)\<close>\<close>

definition difference :: "'a list \<Rightarrow> 'a list list \<Rightarrow> 'a list" where
  "difference xs excluded = filter (\<lambda>x. x \<notin> set (concat excluded)) xs"

text \<open>\<open>validate(ary)\<close>: \<open>[...new Set(ary.filter(isString))].map((x) => join(srcDir, x))\<close>\<close>

fun filter_isString :: "string option list \<Rightarrow> string list" where
  "filter_isString [] = []"
| "filter_isString (None # rest) = filter_isString rest"
| "filter_isString (Some s # rest) = s # filter_isString rest"

definition validate :: "env \<Rightarrow> string \<Rightarrow> string option list \<Rightarrow> string list" where
  "validate env srcDir ary = map (path_join env srcDir) (new_Set (filter_isString ary))"

definition validate_all :: "env \<Rightarrow> string \<Rightarrow> collected_files \<Rightarrow> derived_files" where
  "validate_all env srcDir c =
     \<lparr> css = validate env srcDir (raw_css c),
       contentScripts = validate env srcDir (raw_contentScripts c),
       js = validate env srcDir (raw_js c),
       html = validate env srcDir (raw_html c),
       img = validate env srcDir (raw_img c),
       others = validate env srcDir (raw_others c) \<rparr>"

definition collectMV3 ::
  "env \<Rightarrow> manifest \<Rightarrow> string \<Rightarrow> derive_options \<Rightarrow> error + collected_files" where
  "collectMV3 env m srcDir options =
     (case reduce_err (expand_glob env srcDir) []
             (concat (map (\<lambda>e. case e of WarRule resources _ \<Rightarrow> map Some resources
                                      | WarPath _ \<Rightarrow> [None])
                          (case web_accessible_resources m of None \<Rightarrow> [] | Some w \<Rightarrow> w))
              @ map Some (locale_files m)) of
        Inl e \<Rightarrow> Inl e
      | Inr files \<Rightarrow>
          let contentScripts = map Some (content_script_js m);
              js = map Some (filter is_script files)
                   @ [case background m of None \<Rightarrow> None | Some bg \<Rightarrow> service_worker bg]
                   @ (if opt_contentScripts options then contentScripts else []);
              html = map Some (filter is_html files)
                   @ [options_page m,
                      case options_ui m of None \<Rightarrow> None | Some ui \<Rightarrow> ui_page ui,
                      devtools_page m,
                      case action m of None \<Rightarrow> None | Some a \<Rightarrow> default_popup a]
                   @ map Some (Object_values
                        (case chrome_url_overrides m of None \<Rightarrow> [] | Some ov \<Rightarrow> ov));
              css = map Some (filter (\<lambda>f. endsWith f ''.css'') files)
                   @ map Some (content_script_css m);
              img = map Some (filter is_image files)
                   @ map Some (icon_values (icons m))
                   @ map Some (icon_values
                        (case action m of None \<Rightarrow> None | Some a \<Rightarrow> default_icon a));
              others = difference (map Some files) [css, contentScripts, js, html, img]
          in Inr \<lparr> raw_css = css, raw_contentScripts = contentScripts, raw_js = js,
                   raw_html = html, raw_img = img, raw_others = others \<rparr>)"

definition deriveFilesMV3 ::
  "env \<Rightarrow> manifest \<Rightarrow> string \<Rightarrow> derive_options \<Rightarrow> error + derived_files" where
  "deriveFilesMV3 env m srcDir options =
     (case collectMV3 env m srcDir options of
        Inl e \<Rightarrow> Inl e
      | Inr c \<Rightarrow> Inr (validate_all env srcDir c))"

text \<open>The icons of \<open>browser_action.default_icon\<close> and \<open>page_action.default_icon\<close>,
  collected into one \<open>Set\<close>.\<close>

definition action_icons :: "action option \<Rightarrow> string list" where
  "action_icons a =
     (case (case a of None \<Rightarrow> None | Some act \<Rightarrow> default_icon act) of
        None \<Rightarrow> []
      | Some (IconPath p) \<Rightarrow> [p]
      | Some (IconMap sizes) \<Rightarrow> Object_values sizes)"

definition actionIconSet :: "manifest \<Rightarrow> string list" where
  "actionIconSet m = new_Set (action_icons (browser_action m) @ action_icons (page_action m))"

definition collectMV2 ::
  "env \<Rightarrow> manifest \<Rightarrow> string \<Rightarrow> derive_options \<Rightarrow> error + collected_files" where
  "collectMV2 env m srcDir options =
     (case reduce_err (expand_glob env srcDir) []
             (map (\<lambda>e. case e of WarPath p \<Rightarrow> Some p | WarRule _ _ \<Rightarrow> None)
                  (case web_accessible_resources m of None \<Rightarrow> [] | Some w \<Rightarrow> w)
              @ map Some (locale_files m)) of
        Inl e \<Rightarrow> Inl e
      | Inr files \<Rightarrow>
          let contentScripts = map Some (content_script_js m);
              js = map Some (filter is_script files)
                   @ map Some (case (case background m of None \<Rightarrow> None | Some bg \<Rightarrow> scripts bg) of
                                 None \<Rightarrow> [] | Some ss \<Rightarrow> ss)
                   @ (if opt_contentScripts options then contentScripts else []);
              html = map Some (filter is_html files)
                   @ [case background m of None \<Rightarrow> None | Some bg \<Rightarrow> bg_page bg,
                      options_page m,
                      case options_ui m of None \<Rightarrow> None | Some ui \<Rightarrow> ui_page ui,
                      devtools_page m,
                      case browser_action m of None \<Rightarrow> None | Some a \<Rightarrow> default_popup a,
                      case page_action m of None \<Rightarrow> None | Some a \<Rightarrow> default_popup a]
                   @ map Some (Object_values
                        (case chrome_url_overrides m of None \<Rightarrow> [] | Some ov \<Rightarrow> ov));
              css = map Some (filter (\<lambda>f. endsWith f ''.css'') files)
                   @ map Some (content_script_css m);
              img = map Some (actionIconSet m)
                   @ map Some (filter is_image files)
                   @ map Some (icon_values (icons m));
              others = difference (map Some files) [css, contentScripts, js, html, img]
          in Inr \<lparr> raw_css = css, raw_contentScripts = contentScripts, raw_js = js,
                   raw_html = html, raw_img = img, raw_others = others \<rparr>)"

definition deriveFilesMV2 ::
  "env \<Rightarrow> manifest \<Rightarrow> string \<Rightarrow> derive_options \<Rightarrow> error + derived_files" where
  "deriveFilesMV2 env m srcDir options =
     (case collectMV2 env m srcDir options of
        Inl e \<Rightarrow> Inl e
      | Inr c \<Rightarrow> Inr (validate_all env srcDir c))"

definition deriveFiles ::
  "env \<Rightarrow> manifest \<Rightarrow> string \<Rightarrow> derive_options \<Rightarrow> error + derived_files" where
  "deriveFiles env m srcDir options =
     (if manifest_version m = Some 3
      then deriveFilesMV3 env m srcDir options
      else deriveFilesMV2 env m srcDir options)"

text \<open>The arrays behind a derivation, for either manifest version.\<close>

definition collect ::
  "env \<Rightarrow> manifest \<Rightarrow> string \<Rightarrow> derive_options \<Rightarrow> error + collected_files" where
  "collect env m srcDir options =
     (if manifest_version m = Some 3
      then collectMV3 env m srcDir options
      else collectMV2 env m srcDir options)"

text \<open>Every path that occurs in one of the six arrays.\<close>

definition collected_paths :: "collected_files \<Rightarrow> string set" where
  "collected_paths c =
     set (filter_isString (raw_css c @ raw_contentScripts c @ raw_js c @ raw_html c
                           @ raw_img c @ raw_others c))"

section \<open>Objects shared with the caller\<close>

text \<open>
  \<open>updateManifestV3\<close> receives its manifest and Rollup's output options by reference
  and assigns to properties of objects.  Objects that are assigned to live in a
  store: a reference is a number, the store gives the manifest or the output options
  that a reference holds, and \<open>next_ref\<close> is the first reference that is not in use.
  A manifest object owns everything below it; \<open>JSON.parse(JSON.stringify(obj))\<close> builds
  a new object with the same content.
\<close>

type_synonym ref = nat

record output_options =
  chunkFileNames :: "string option"

record store =
  manifest_at :: "ref \<Rightarrow> manifest"
  output_at :: "ref \<Rightarrow> output_options"
  next_ref :: ref

definition new_manifest :: "manifest \<Rightarrow> store \<Rightarrow> ref \<times> store" where
  "new_manifest v h =
     (next_ref h, h\<lparr>manifest_at := (manifest_at h)(next_ref h := v), next_ref := Suc (next_ref h)\<rparr>)"

definition new_output :: "output_options \<Rightarrow> store \<Rightarrow> ref \<times> store" where
  "new_output v h =
     (next_ref h, h\<lparr>output_at := (output_at h)(next_ref h := v), next_ref := Suc (next_ref h)\<rparr>)"

definition cloneObject :: "ref \<Rightarrow> store \<Rightarrow> ref \<times> store" where
  "cloneObject obj h = new_manifest (manifest_at h obj) h"

definition assign_manifest :: "ref \<Rightarrow> (manifest \<Rightarrow> manifest) \<Rightarrow> store \<Rightarrow> store" where
  "assign_manifest r f h = h\<lparr>manifest_at := (manifest_at h)(r := f (manifest_at h r))\<rparr>"

definition assign_chunkFileNames :: "string \<Rightarrow> store \<Rightarrow> ref \<Rightarrow> store" where
  "assign_chunkFileNames cfn h r =
     h\<lparr>output_at := (output_at h)(r := (output_at h r)\<lparr>chunkFileNames := Some cfn\<rparr>)\<rparr>"

text \<open>Rollup's options: \<open>input\<close> is an array of paths, a record, a string or something
  else (given by its \<open>typeof\<close>); \<open>output\<close> is absent, one options object or an array of
  them.\<close>

datatype rollup_input =
  InputArray "string list" | InputObject input_record | InputString string | InputOther string

datatype output_spec = NoOutput | OneOutput ref | ManyOutputs "ref list"

record rollup_options =
  "input" :: rollup_input
  "output" :: output_spec

section \<open>The build cache\<close>

text \<open>\<open>cache.manifest\<close> is \<open>None\<close> while the property is absent; \<open>cache.readFile\<close> is the
  \<open>Map\<close> from file names to the contents read so far.\<close>

record cache =
  cache_assetChanged :: bool
  cache_assets :: "string list"
  cache_contentScripts :: "string list"
  cache_iife :: "string list"
  cache_input :: "string list"
  cache_inputAry :: "string list"
  cache_inputObj :: input_record
  cache_permsHash :: string
  cache_readFile :: "string \<rightharpoonup> string"
  cache_srcDir :: "string js_opt"
  cache_manifest :: "manifest option"
  cache_chunkFileNames :: "string option"

section \<open>updateManifestV3\<close>

definition getImportContentScriptFileName :: "env \<Rightarrow> string \<Rightarrow> string" where
  "getImportContentScriptFileName env target =
     (let base = path_basename env target
      in replace_first base (''import-'' @ base) target)"

definition default_chunkFileNames :: string where
  "default_chunkFileNames = ''chunks/[name]-[hash].js''"

text \<open>\<open>x.chunkFileNames ?? 'no cfn'\<close> for each element of the output array, collected
  into a \<open>Set\<close>.\<close>

definition chunkFileNames_values :: "store \<Rightarrow> ref list \<Rightarrow> string list" where
  "chunkFileNames_values h outputs =
     new_Set (map (\<lambda>x. case chunkFileNames (output_at h x) of None \<Rightarrow> ''no cfn'' | Some v \<Rightarrow> v)
                  outputs)"

text \<open>
  The first part of the \<open>content_scripts\<close> branch: choose \<open>cfn\<close>, record it in the cache
  and write it into every output object.  With no \<open>output\<close> option the default \<open>{}\<close> is
  a new object.  Destructuring \<open>output[0]\<close> of an empty array throws before the cache
  is touched; the check for several values throws after it.
\<close>

definition choose_chunkFileNames ::
  "rollup_options \<Rightarrow> cache \<times> store \<Rightarrow> (error + string) \<times> cache \<times> store" where
  "choose_chunkFileNames options s =
     (case s of (cache, h) \<Rightarrow>
        (case output options of
           NoOutput \<Rightarrow>
             (case new_output \<lparr>chunkFileNames = None\<rparr> h of (out, h') \<Rightarrow>
                (Inr default_chunkFileNames,
                 cache\<lparr>cache_chunkFileNames := Some default_chunkFileNames\<rparr>,
                 assign_chunkFileNames default_chunkFileNames h' out))
         | OneOutput out \<Rightarrow>
             (let cfn = (case chunkFileNames (output_at h out) of
                           None \<Rightarrow> default_chunkFileNames | Some v \<Rightarrow> v)
              in (Inr cfn, cache\<lparr>cache_chunkFileNames := Some cfn\<rparr>,
                  assign_chunkFileNames cfn h out))
         | ManyOutputs [] \<Rightarrow>
             (Inl (TypeError ''Cannot destructure property chunkFileNames of undefined''),
              cache, h)
         | ManyOutputs (first # rest) \<Rightarrow>
             (let cfn = (case chunkFileNames (output_at h first) of
                           None \<Rightarrow> default_chunkFileNames | Some v \<Rightarrow> v);
                  cache' = cache\<lparr>cache_chunkFileNames := Some cfn\<rparr>
              in if length (chunkFileNames_values h (first # rest)) > 1
                 then (Inl (TypeError ''Multiple output values for chunkFileNames are not supported''),
                       cache', h)
                 else (Inr cfn, cache', foldl (assign_chunkFileNames cfn) h (first # rest)))))"

text \<open>\<open>allMatches\<close>: the match patterns of all content scripts, then the host
  permissions, each converted.\<close>

definition allMatches :: "env \<Rightarrow> manifest \<Rightarrow> error + string list" where
  "allMatches env manifest =
     map_err (convertMatchPatterns env)
       (concat (map (\<lambda>c. case cs_matches c of None \<Rightarrow> [] | Some ms \<Rightarrow> ms)
                    (case content_scripts manifest of None \<Rightarrow> [] | Some cs \<Rightarrow> cs))
        @ (case host_permissions manifest of None \<Rightarrow> [] | Some hs \<Rightarrow> hs))"

text \<open>The first resource: \<open>cfn\<close> with the first \<open>[format]\<close>, \<open>[name]\<close> and \<open>[hash]\<close>
  replaced by \<open>*\<close>.\<close>

definition chunk_glob :: "env \<Rightarrow> string \<Rightarrow> string" where
  "chunk_glob env cfn =
     slash env
       (replace_first ''[hash]'' ''*''
          (replace_first ''[name]'' ''*''
             (replace_first ''[format]'' ''*'' (join_str ''/'' (split_str ''/'' cfn)))))"

text \<open>\<open>cache.contentScripts.map((x) => slash(relative(cache.srcDir, x)))\<close>;
  \<open>path.relative\<close> throws when its first argument is not a string.\<close>

definition script_resources :: "env \<Rightarrow> cache \<Rightarrow> error + string list" where
  "script_resources env cache =
     map_err (\<lambda>x. case cache_srcDir cache of
                     Defined dir \<Rightarrow> Inr (slash env (path_relative env dir x))
                   | _ \<Rightarrow> Inl (TypeError ''The from argument must be of type string''))
             (cache_contentScripts cache)"

text \<open>The rest of the \<open>content_scripts\<close> branch, on the cloned manifest.\<close>

definition add_resource_rule ::
  "bool \<Rightarrow> env \<Rightarrow> string list \<Rightarrow> string list \<Rightarrow> manifest \<Rightarrow> manifest" where
  "add_resource_rule wrapContentScripts env rule_resources rule_matches manifest =
     (let wrapped =
            (if wrapContentScripts
             then manifest\<lparr>content_scripts :=
                    map_option (map (\<lambda>c. c\<lparr>cs_js :=
                       map_option (map (getImportContentScriptFileName env)) (cs_js c)\<rparr>))
                      (content_scripts manifest)\<rparr>
             else manifest)
      in wrapped\<lparr>web_accessible_resources :=
           Some ((case web_accessible_resources wrapped of None \<Rightarrow> [] | Some w \<Rightarrow> w)
                 @ [WarRule rule_resources rule_matches])\<rparr>)"

text \<open>\<open>if (manifest.background) { manifest.background.type = 'module' }\<close>\<close>

definition set_module_type :: "manifest \<Rightarrow> manifest" where
  "set_module_type manifest =
     (case background manifest of
        None \<Rightarrow> manifest
      | Some bg \<Rightarrow> manifest\<lparr>background := Some (bg\<lparr>bg_type := Some ''module''\<rparr>)\<rparr>)"

definition updateManifestV3 ::
  "env \<Rightarrow> ref \<Rightarrow> rollup_options \<Rightarrow> bool \<Rightarrow> cache \<times> store \<Rightarrow> (error + ref) \<times> cache \<times> store" where
  "updateManifestV3 env m options wrapContentScripts s =
     (case s of (cache, h0) \<Rightarrow>
      (case cloneObject m h0 of (manifest, h1) \<Rightarrow>
        let h2 = assign_manifest manifest set_module_type h1
        in if content_scripts (manifest_at h2 manifest) = None
           then (Inr manifest, cache, h2)
           else
             (case choose_chunkFileNames options (cache, h2) of
                (Inl e, cache', h3) \<Rightarrow> (Inl e, cache', h3)
              | (Inr cfn, cache', h3) \<Rightarrow>
                  (case allMatches env (manifest_at h3 manifest) of
                     Inl e \<Rightarrow> (Inl e, cache', h3)
                   | Inr converted \<Rightarrow>
                       (case script_resources env cache' of
                          Inl e \<Rightarrow> (Inl e, cache', h3)
                        | Inr files \<Rightarrow>
                            (Inr manifest, cache',
                             assign_manifest manifest
                               (add_resource_rule wrapContentScripts env
                                  (chunk_glob env cfn # files) (new_Set converted)) h3))))))"

text \<open>The store once \<open>updateManifestV3\<close> has cloned the manifest at \<open>m\<close> and set the
  background type of the clone: the clone is the object at \<open>next_ref\<close>.\<close>

definition cloned :: "ref \<Rightarrow> store \<Rightarrow> store" where
  "cloned m h =
     h\<lparr>manifest_at := (manifest_at h)(next_ref h := set_module_type (manifest_at h m)),
       next_ref := Suc (next_ref h)\<rparr>"

text \<open>The \<open>chunkFileNames\<close> that \<open>updateManifestV3\<close> works with: that of the only or the
  first output, or the default.\<close>

definition chosen_chunkFileNames :: "store \<Rightarrow> output_spec \<Rightarrow> string" where
  "chosen_chunkFileNames h out =
     (case (case out of
              NoOutput \<Rightarrow> None
            | OneOutput r \<Rightarrow> chunkFileNames (output_at h r)
            | ManyOutputs rs \<Rightarrow> (case rs of [] \<Rightarrow> None | r # _ \<Rightarrow> chunkFileNames (output_at h r))) of
        None \<Rightarrow> default_chunkFileNames
      | Some v \<Rightarrow> v)"


text \<open>All match patterns that are converted: those of the content scripts, then
  the host permissions.\<close>

definition match_patterns :: "manifest \<Rightarrow> string list" where
  "match_patterns manifest =
     concat (map (\<lambda>c. case cs_matches c of None \<Rightarrow> [] | Some ms \<Rightarrow> ms)
                 (case content_scripts manifest of None \<Rightarrow> [] | Some cs \<Rightarrow> cs))
     @ (case host_permissions manifest of None \<Rightarrow> [] | Some hs \<Rightarrow> hs)"

text \<open>The output options for which choosing the chunk file names does not throw: an
  array of outputs is not empty and gives one value of \<open>chunkFileNames\<close>.\<close>

definition single_chunkFileNames :: "store \<Rightarrow> output_spec \<Rightarrow> bool" where
  "single_chunkFileNames h out =
     (case out of
        ManyOutputs outs \<Rightarrow> outs \<noteq> [] \<and> length (chunkFileNames_values h outs) \<le> 1
      | _ \<Rightarrow> True)"

section \<open>The manifest-input plugin: options hook and watchChange\<close>

datatype extend_manifest =
  ExtendFunction "manifest \<Rightarrow> manifest" | ExtendObject manifest | ExtendOther

record pkg_details =
  pkg_name :: "string option"
  pkg_version :: "string option"
  pkg_description :: "string option"

record plugin_options =
  extendManifest :: extend_manifest
  firstClassManifest :: bool
  iifeJsonPaths :: "string list"
  pkg :: pkg_details
  wrapContentScripts :: bool

text \<open>
  What the hooks of one plugin instance share: the cache, the closure variable
  \<open>manifestPath\<close> and the objects they assign to.  \<open>deriveFiles_calls\<close> is not part of the
  plugin: it counts how often the hooks have called \<open>deriveFiles\<close>.
\<close>

record plugin_state =
  cache :: cache
  manifestPath :: "string option"
  objects :: store
  deriveFiles_calls :: nat

text \<open>The cache a plugin instance starts with.\<close>

definition initial_cache :: cache where
  "initial_cache =
     \<lparr> cache_assetChanged = False, cache_assets = [], cache_contentScripts = [],
       cache_iife = [], cache_input = [], cache_inputAry = [], cache_inputObj = [],
       cache_permsHash = [], cache_readFile = Map.empty, cache_srcDir = JsNull,
       cache_manifest = None, cache_chunkFileNames = None \<rparr>"


definition stubChunkNameForCssOnlyCrx :: string where
  "stubChunkNameForCssOnlyCrx = ''stub__css-only-chrome-extension-manifest''"


text \<open>\<open>{ ...a, ...b }\<close> on manifests: a field of \<open>b\<close> that is present wins.\<close>

definition spread_field :: "'a option \<Rightarrow> 'a option \<Rightarrow> 'a option" where
  "spread_field a b = (case b of None \<Rightarrow> a | Some v \<Rightarrow> Some v)"

definition spread :: "manifest \<Rightarrow> manifest \<Rightarrow> manifest" where
  "spread a b =
     \<lparr> manifest_version = spread_field (manifest_version a) (manifest_version b),
       name = spread_field (name a) (name b),
       version = spread_field (version a) (version b),
       description = spread_field (description a) (description b),
       default_locale = spread_field (default_locale a) (default_locale b),
       background = spread_field (background a) (background b),
       content_scripts = spread_field (content_scripts a) (content_scripts b),
       host_permissions = spread_field (host_permissions a) (host_permissions b),
       permissions = spread_field (permissions a) (permissions b),
       options_page = spread_field (options_page a) (options_page b),
       options_ui = spread_field (options_ui a) (options_ui b),
       devtools_page = spread_field (devtools_page a) (devtools_page b),
       action = spread_field (action a) (action b),
       browser_action = spread_field (browser_action a) (browser_action b),
       page_action = spread_field (page_action a) (page_action b),
       chrome_url_overrides = spread_field (chrome_url_overrides a) (chrome_url_overrides b),
       icons = spread_field (icons a) (icons b),
       web_accessible_resources =
         spread_field (web_accessible_resources a) (web_accessible_resources b) \<rparr>"

text \<open>\<open>isManifestFileName\<close>, \<open>validateFileName\<close> and \<open>getInputManifestPath\<close>.  The first
  error message ends with \<open>JSON.stringify(input)\<close>, which is left out.\<close>

definition isManifestFileName :: "env \<Rightarrow> string \<Rightarrow> bool" where
  "isManifestFileName env filename = startsWith (path_basename env filename) ''manifest''"

definition validateFileName :: "env \<Rightarrow> string option \<Rightarrow> error + string" where
  "validateFileName env filename =
     (case filename of
        None \<Rightarrow> Inl (Error ''Could not find manifest in Rollup options.input'')
      | Some f \<Rightarrow>
          if \<not> existsSync env f
          then Inl (Error (''Could not load manifest: '' @ f @ '' does not exist''))
          else Inr f)"

record input_paths =
  inputManifestPath :: string
  inputAry :: "string list option"
  inputObj :: "input_record option"

fun findIndex :: "('a \<Rightarrow> bool) \<Rightarrow> 'a list \<Rightarrow> nat option" where
  "findIndex p [] = None"
| "findIndex p (x # xs) = (if p x then Some 0 else map_option Suc (findIndex p xs))"

definition getInputManifestPath :: "env \<Rightarrow> rollup_options \<Rightarrow> error + input_paths" where
  "getInputManifestPath env options =
     (case input options of
        InputArray paths \<Rightarrow>
          (case findIndex (isManifestFileName env) paths of
             None \<Rightarrow> map_sum id (\<lambda>p. \<lparr>inputManifestPath = p, inputAry = Some (butlast paths @ paths),
                                        inputObj = None\<rparr>)
                       (validateFileName env None)
           | Some manifestIndex \<Rightarrow>
               map_sum id (\<lambda>p. \<lparr>inputManifestPath = p,
                                inputAry = Some (take manifestIndex paths
                                                 @ drop (manifestIndex + 1) paths),
                                inputObj = None\<rparr>)
                 (validateFileName env (Some (paths ! manifestIndex))))
      | InputObject obj \<Rightarrow>
          map_sum id (\<lambda>p. \<lparr>inputManifestPath = p, inputAry = None,
                           inputObj = Some (filter (\<lambda>(k, v). k \<noteq> ''manifest'') obj)\<rparr>)
            (validateFileName env (map_of obj ''manifest''))
      | InputString path \<Rightarrow>
          map_sum id (\<lambda>p. \<lparr>inputManifestPath = p, inputAry = None, inputObj = None\<rparr>)
            (validateFileName env (Some path))
      | InputOther type \<Rightarrow>
          Inl (TypeError (''Rollup options.input cannot be type '' @ [CHR 0x22] @ type @ [CHR 0x22])))"

text \<open>\<open>Object.assign(cache, cacheValues)\<close>\<close>

definition assign_cacheValues :: "input_paths \<Rightarrow> cache \<Rightarrow> cache" where
  "assign_cacheValues paths c =
     c\<lparr>cache_inputAry := (case inputAry paths of None \<Rightarrow> cache_inputAry c | Some a \<Rightarrow> a),
       cache_inputObj := (case inputObj paths of None \<Rightarrow> cache_inputObj c | Some obj \<Rightarrow> obj)\<rparr>"

text \<open>\<open>`${options.input}`\<close>\<close>

definition input_to_string :: "rollup_input \<Rightarrow> string" where
  "input_to_string i =
     (case i of
        InputArray paths \<Rightarrow> join_str '','' paths
      | InputObject obj \<Rightarrow> ''[object Object]''
      | InputString path \<Rightarrow> path
      | InputOther type \<Rightarrow> type)"

text \<open>The runs of digits of the package version, for \<open>matchAll(/\d+/g)\<close>.\<close>

fun digit_runs :: "string \<Rightarrow> string \<Rightarrow> string list" where
  "digit_runs run [] = (if run = [] then [] else [run])"
| "digit_runs run (c # cs) =
     (if c \<in> set ''0123456789'' then digit_runs (run @ [c]) cs
      else (if run = [] then [] else [run]) @ digit_runs [] cs)"

definition apply_extend :: "extend_manifest \<Rightarrow> manifest \<Rightarrow> manifest" where
  "apply_extend ext loaded =
     (case ext of
        ExtendFunction f \<Rightarrow> f loaded
      | ExtendObject obj \<Rightarrow> spread loaded obj
      | ExtendOther \<Rightarrow> loaded)"

definition fullManifest :: "pkg_details \<Rightarrow> manifest \<Rightarrow> manifest" where
  "fullManifest p extendedManifest =
     spread
       (empty_manifest\<lparr>manifest_version := Some 2,
          name := pkg_name p,
          version := Some (join_str ''.''
                       (digit_runs [] (case pkg_version p of None \<Rightarrow> [] | Some v \<Rightarrow> v))),
          description := pkg_description p\<rparr>)
       extendedManifest"

definition validateManifest :: "env \<Rightarrow> manifest \<Rightarrow> error + manifest" where
  "validateManifest env manifest =
     (if validator env manifest then Inr manifest
      else Inl (Error ''There were problems with the extension manifest.''))"

text \<open>The block under \<open>if (firstClassManifest)\<close>: derive the entry paths from the
  manifest and cache them.\<close>

definition derive_inputs ::
  "plugin_options \<Rightarrow> env \<Rightarrow> manifest \<Rightarrow> string \<Rightarrow> plugin_state \<Rightarrow> (error + unit) \<times> plugin_state" where
  "derive_inputs cfg env full srcDir st =
     (if firstClassManifest cfg
      then
        let st1 = st\<lparr>cache := (cache st)\<lparr>cache_iife :=
                     concat (map (\<lambda>jsonPath. JSONPath env jsonPath full) (iifeJsonPaths cfg))\<rparr>,
                   deriveFiles_calls := deriveFiles_calls st + 1\<rparr>
        in (case deriveFiles env full srcDir \<lparr>opt_contentScripts = True\<rparr> of
              Inl e \<Rightarrow> (Inl e, st1)
            | Inr d \<Rightarrow>
                (Inr (),
                 st1\<lparr>cache := (cache st1)
                   \<lparr>cache_contentScripts := contentScripts d,
                    cache_input := cache_inputAry (cache st1) @ js d @ html d,
                    cache_assets := new_Set (css d @ img d @ others d)\<rparr>\<rparr>))
      else (Inr (), st))"

text \<open>The end of the loading block: update an MV3 manifest, validate, and cache.\<close>

definition finish_manifest ::
  "plugin_options \<Rightarrow> env \<Rightarrow> rollup_options \<Rightarrow> manifest \<Rightarrow> plugin_state
     \<Rightarrow> (error + unit) \<times> plugin_state" where
  "finish_manifest cfg env options full st =
     (case (if manifest_version full = Some 3
            then (case new_manifest full (objects st) of (m, h) \<Rightarrow>
                   (case updateManifestV3 env m options (wrapContentScripts cfg) (cache st, h) of
                      (Inl e, c, h') \<Rightarrow> (Inl e, st\<lparr>cache := c, objects := h'\<rparr>)
                    | (Inr r, c, h') \<Rightarrow> (Inr (manifest_at h' r), st\<lparr>cache := c, objects := h'\<rparr>)))
            else (Inr full, st)) of
        (Inl e, st') \<Rightarrow> (Inl e, st')
      | (Inr finalManifest, st') \<Rightarrow>
          (case validateManifest env finalManifest of
             Inl e \<Rightarrow> (Inl e, st')
           | Inr valid \<Rightarrow> (Inr (), st'\<lparr>cache := (cache st')\<lparr>cache_manifest := Some valid\<rparr>\<rparr>)))"

text \<open>The block under \<open>if (!cache.manifest)\<close>.\<close>

definition load_manifest ::
  "plugin_options \<Rightarrow> env \<Rightarrow> rollup_options \<Rightarrow> plugin_state \<Rightarrow> (error + unit) \<times> plugin_state" where
  "load_manifest cfg env options st =
     (case getInputManifestPath env options of
        Inl e \<Rightarrow> (Inl e, st)
      | Inr paths \<Rightarrow>
          let st1 = st\<lparr>cache := assign_cacheValues paths (cache st)\<rparr>
          in (case explorer_load env (inputManifestPath paths) of
                Inl e \<Rightarrow> (Inl e, st1)
              | Inr configResult \<Rightarrow>
                  if isEmpty configResult
                  then (Inl (Error (input_to_string (input options) @ '' is an empty file.'')), st1)
                  else if isPresent (options_ui (config configResult))
                          \<and> isPresent (options_page (config configResult))
                  then (Inl (Error
                          ''options_ui and options_page cannot both be defined in manifest.json.''),
                        st1)
                  else
                    let srcDir = path_dirname env (filepath configResult);
                        st2 = st1\<lparr>manifestPath := Some (filepath configResult),
                                  cache := (cache st1)\<lparr>cache_srcDir := Defined srcDir\<rparr>\<rparr>;
                        full = fullManifest (pkg cfg) (apply_extend (extendManifest cfg) (config configResult))
                    in (case derive_inputs cfg env full srcDir st2 of
                          (Inl e, st3) \<Rightarrow> (Inl e, st3)
                        | (Inr _, st3) \<Rightarrow> finish_manifest cfg env options full st3)))"

definition options_hook ::
  "plugin_options \<Rightarrow> env \<Rightarrow> rollup_options \<Rightarrow> plugin_state
     \<Rightarrow> (error + rollup_options) \<times> plugin_state" where
  "options_hook cfg env options st =
     (case (if cache_manifest (cache st) = None then load_manifest cfg env options st
            else (Inr (), st)) of
        (Inl e, st') \<Rightarrow> (Inl e, st')
      | (Inr _, st') \<Rightarrow>
          (case reduce_files env (cache_srcDir (cache st')) (cache_inputObj (cache st'))
                  (cache_input (cache st')) of
             Inl e \<Rightarrow> (Inl e, st')
           | Inr finalInput \<Rightarrow>
               (Inr (options\<lparr>input := InputObject
                       (if finalInput = []
                        then [(stubChunkNameForCssOnlyCrx, stubChunkNameForCssOnlyCrx)]
                        else finalInput)\<rparr>),
                st')))"

section \<open>A concrete platform\<close>

text \<open>
  For evaluating the plugin on concrete inputs, the library functions are instantiated
  with models of their POSIX and ASCII behaviour.

  Paths: \<open>posix_normalize\<close> follows Node's \<open>path.posix.normalize\<close>; \<open>posix_relative\<close>
  is \<open>path.posix.relative\<close> with the root as working directory; \<open>posix_basename\<close> and
  \<open>posix_dirname\<close> are \<open>path.posix.basename\<close> and \<open>path.posix.dirname\<close> for paths
  without repeated slashes.
\<close>

fun normalize_segs :: "bool \<Rightarrow> string list \<Rightarrow> string list \<Rightarrow> string list" where
  "normalize_segs allowAboveRoot acc [] = rev acc"
| "normalize_segs allowAboveRoot acc (s # ss) =
     (if s = [] \<or> s = ''.'' then normalize_segs allowAboveRoot acc ss
      else if s = ''..'' then
        (case acc of
           [] \<Rightarrow> normalize_segs allowAboveRoot (if allowAboveRoot then [''..''] else []) ss
         | t # ts \<Rightarrow>
             if t = ''..'' then normalize_segs allowAboveRoot (''..'' # acc) ss
             else normalize_segs allowAboveRoot ts ss)
      else normalize_segs allowAboveRoot (s # acc) ss)"

definition posix_normalize :: "string \<Rightarrow> string" where
  "posix_normalize p =
     (if p = [] then ''.''
      else
        let isAbsolute = (hd p = CHR ''/'');
            trailingSeparator = (last p = CHR ''/'');
            body = join_str ''/'' (normalize_segs (\<not> isAbsolute) [] (split_str ''/'' p))
        in if body = [] then (if isAbsolute then ''/'' else if trailingSeparator then ''./'' else ''.'')
           else (if isAbsolute then ''/'' else []) @ body @ (if trailingSeparator then ''/'' else []))"

definition posix_join :: "string \<Rightarrow> string \<Rightarrow> string" where
  "posix_join a b =
     (if a = [] \<and> b = [] then ''.''
      else if a = [] then posix_normalize b
      else if b = [] then posix_normalize a
      else posix_normalize (a @ ''/'' @ b))"

fun strip_common :: "string list \<Rightarrow> string list \<Rightarrow> string list \<times> string list" where
  "strip_common (x # xs) (y # ys) = (if x = y then strip_common xs ys else (x # xs, y # ys))"
| "strip_common xs ys = (xs, ys)"

definition posix_relative :: "string \<Rightarrow> string \<Rightarrow> string" where
  "posix_relative from to =
     (case strip_common (normalize_segs False [] (split_str ''/'' from))
                        (normalize_segs False [] (split_str ''/'' to)) of
        (up, down) \<Rightarrow> join_str ''/'' (replicate (length up) ''..'' @ down))"

definition posix_basename :: "string \<Rightarrow> string" where
  "posix_basename p =
     (case rev (filter (\<lambda>s. s \<noteq> []) (split_str ''/'' p)) of [] \<Rightarrow> [] | s # _ \<Rightarrow> s)"

definition posix_dirname :: "string \<Rightarrow> string" where
  "posix_dirname p =
     (case rev (filter (\<lambda>s. s \<noteq> []) (split_str ''/'' p)) of
        [] \<Rightarrow> (if p = [] then ''.'' else ''/'')
      | _ # parents \<Rightarrow>
          if hd p = CHR ''/'' then CHR ''/'' # join_str ''/'' (rev parents)
          else if parents = [] then ''.'' else join_str ''/'' (rev parents))"

text \<open>\<open>slash\<close> turns backslashes into slashes, except in an extended-length Windows
  path and in a path with a character above code 128.\<close>

definition slash_model :: "string \<Rightarrow> string" where
  "slash_model p =
     (if startsWith p [CHR 0x5C, CHR 0x5C, CHR ''?'', CHR 0x5C] \<or> (\<exists>c\<in>set p. 128 < (of_char c :: nat))
      then p else map (\<lambda>c. if c = CHR 0x5C then CHR ''/'' else c) p)"

text \<open>\<open>glob.hasMagic\<close>, approximated by the presence of a wildcard character; the
  source directory holds no file, so that \<open>glob.sync\<close> finds nothing.\<close>

definition hasMagic_model :: "string \<Rightarrow> bool" where
  "hasMagic_model p = (\<exists>c\<in>set p. c \<in> set ''*?[{'')"

text \<open>
  The origin of \<open>new URL(s)\<close> for an \<open>http:\<close> URL whose host is an ASCII registered name.
  After the scheme the parser skips slashes and backslashes; the authority ends at the
  next \<open>/\<close>, \<open>\\<close>, \<open>?\<close> or \<open>#\<close>; credentials up to the last \<open>@\<close> are dropped; the host is
  lower-cased; a port is a decimal number of at most 65535 and the default port 80 is
  omitted.  The constructor throws for an empty host, a host with a forbidden
  character, or a malformed port.  IP-address hosts, percent-escapes and non-ASCII
  hosts are not covered.
\<close>

definition is_digit :: "char \<Rightarrow> bool" where
  "is_digit c = (c \<in> set ''0123456789'')"

definition digit_value :: "char \<Rightarrow> nat" where
  "digit_value c = of_char c - 48"

definition decimal_value :: "string \<Rightarrow> nat" where
  "decimal_value ds = foldl (\<lambda>n d. 10 * n + digit_value d) 0 ds"

fun show_digits :: "nat \<Rightarrow> nat \<Rightarrow> string" where
  "show_digits 0 n = []"
| "show_digits (Suc fuel) n =
     (if n < 10 then [''0123456789'' ! n]
      else show_digits fuel (n div 10) @ [''0123456789'' ! (n mod 10)])"

definition forbidden_host_char :: "char \<Rightarrow> bool" where
  "forbidden_host_char c =
     ((of_char c :: nat) \<le> 32 \<or> (of_char c :: nat) \<ge> 127
      \<or> c \<in> set ''#/:<>?@[]^|%'' \<or> c = CHR 0x5C)"

definition after_last :: "char \<Rightarrow> string \<Rightarrow> string" where
  "after_last c s = rev (takeWhile (\<lambda>d. d \<noteq> c) (rev s))"

definition before_last :: "char \<Rightarrow> string \<Rightarrow> string" where
  "before_last c s = rev (drop 1 (dropWhile (\<lambda>d. d \<noteq> c) (rev s)))"

definition url_origin_model :: "string \<Rightarrow> string option" where
  "url_origin_model s =
     (if \<not> startsWith s ''http:'' then None
      else
        let afterScheme = dropWhile (\<lambda>c. c = CHR ''/'' \<or> c = CHR 0x5C) (drop 5 s);
            authority = takeWhile (\<lambda>c. c \<notin> set ''/?#'' \<and> c \<noteq> CHR 0x5C) afterScheme;
            hostport = after_last CHR ''@'' authority;
            hasPort = (CHR '':'' \<in> set hostport);
            host = (if hasPort then before_last CHR '':'' hostport else hostport);
            port = (if hasPort then after_last CHR '':'' hostport else [])
        in if host = [] \<or> (\<exists>c\<in>set host. forbidden_host_char c) then None
           else if (\<exists>c\<in>set port. \<not> is_digit c) \<or> 65535 < decimal_value port then None
           else Some (''http://'' @ map lower_ascii host
                      @ (if port = [] \<or> decimal_value port = 80 then []
                         else CHR '':'' # show_digits 5 (decimal_value port))))"

text \<open>
  \<open>unescape\<close> on strings of 8-bit characters: \<open>%XX\<close> and \<open>%u00XX\<close> become the character
  with that code; any other \<open>%\<close> stands for itself.  (An escape \<open>%uXXXX\<close> above 255
  names a character that an 8-bit string cannot hold and is left as it is.)
\<close>

definition hex_value :: "char \<Rightarrow> nat option" where
  "hex_value c =
     (let n = (of_char c :: nat)
      in if 48 \<le> n \<and> n \<le> 57 then Some (n - 48)
         else if 65 \<le> n \<and> n \<le> 70 then Some (n - 55)
         else if 97 \<le> n \<and> n \<le> 102 then Some (n - 87)
         else None)"

fun unescape_model :: "string \<Rightarrow> string" where
  "unescape_model (p # u # a # b # c # d # rest) =
     (if p = CHR ''%'' \<and> u = CHR ''u'' \<and> a = CHR ''0'' \<and> b = CHR ''0''
         \<and> hex_value c \<noteq> None \<and> hex_value d \<noteq> None
      then char_of (16 * the (hex_value c) + the (hex_value d)) # unescape_model rest
      else if p = CHR ''%'' \<and> hex_value u \<noteq> None \<and> hex_value a \<noteq> None
      then char_of (16 * the (hex_value u) + the (hex_value a)) # unescape_model (b # c # d # rest)
      else p # unescape_model (u # a # b # c # d # rest))"
| "unescape_model (p # x # y # rest) =
     (if p = CHR ''%'' \<and> hex_value x \<noteq> None \<and> hex_value y \<noteq> None
      then char_of (16 * the (hex_value x) + the (hex_value y)) # unescape_model rest
      else p # unescape_model (x # y # rest))"
| "unescape_model s = s"

text \<open>The platform: every manifest file loads as \<open>loaded\<close>, every file exists, and the
  schema validator accepts every manifest.\<close>

definition node_env :: "config_result \<Rightarrow> env" where
  "node_env loaded =
     \<lparr> path_relative = posix_relative,
       path_join = posix_join,
       path_basename = posix_basename,
       path_dirname = posix_dirname,
       slash = slash_model,
       glob_hasMagic = hasMagic_model,
       glob_sync = (\<lambda>pattern cwd. []),
       url_origin = url_origin_model,
       unescape = unescape_model,
       existsSync = (\<lambda>file. True),
       explorer_load = (\<lambda>file. Inr loaded),
       JSONPath = (\<lambda>path json. []),
       validator = (\<lambda>m. True) \<rparr>"

text \<open>A platform on which loading any manifest file yields the empty object.\<close>

definition plain_env :: env where
  "plain_env = node_env \<lparr>isEmpty = False, config = empty_manifest, filepath = ''/src/manifest.json''\<rparr>"

section \<open>Example inputs\<close>

text \<open>A store without objects, the state of a new plugin instance, and the plugin's
  default options.\<close>

definition empty_store :: store where
  "empty_store =
     \<lparr> manifest_at = (\<lambda>r. empty_manifest), output_at = (\<lambda>r. \<lparr>chunkFileNames = None\<rparr>),
       next_ref = 0 \<rparr>"

definition initial_state :: plugin_state where
  "initial_state =
     \<lparr> cache = initial_cache, manifestPath = None, objects = empty_store,
       deriveFiles_calls = 0 \<rparr>"

definition default_plugin_options :: plugin_options where
  "default_plugin_options =
     \<lparr> extendManifest = ExtendObject empty_manifest, firstClassManifest = True,
       iifeJsonPaths = [],
       pkg = \<lparr>pkg_name = Some [], pkg_version = Some [], pkg_description = Some []\<rparr>,
       wrapContentScripts = True \<rparr>"




text \<open>Rollup options that name the manifest, a permission hash
  (\<open>JSON.stringify(["alarms"])\<close>), and the cache as a build of an empty manifest in
  \<open>/src\<close> leaves it, with one asset read.\<close>

definition example_options :: rollup_options where
  "example_options = \<lparr>input = InputString ''/src/manifest.json'', output = NoOutput\<rparr>"



text \<open>A platform on which the manifest file defines both options pages.\<close>

definition conflict_env :: env where
  "conflict_env =
     node_env \<lparr>isEmpty = False,
               config = empty_manifest
                 \<lparr>options_page := Some ''options.html'',
                  options_ui := Some \<lparr>ui_page = Some ''options.html''\<rparr>\<rparr>,
               filepath = ''/src/manifest.json''\<rparr>"



section \<open>The concrete platform, field by field\<close>

lemma plain_env_simps:
  "path_relative plain_env = posix_relative"
  "path_join plain_env = posix_join"
  "path_basename plain_env = posix_basename"
  "path_dirname plain_env = posix_dirname"
  "slash plain_env = slash_model"
  "glob_hasMagic plain_env = hasMagic_model"
  "glob_sync plain_env = (\<lambda>pattern cwd. [])"
  "url_origin plain_env = url_origin_model"
  "unescape plain_env = unescape_model"
  "existsSync plain_env = (\<lambda>file. True)"
  "explorer_load plain_env = (\<lambda>file. Inr \<lparr>isEmpty = False, config = empty_manifest,
      filepath = ''/src/manifest.json''\<rparr>)"
  "JSONPath plain_env = (\<lambda>path json. [])"
  "validator plain_env = (\<lambda>m. True)"
  by (simp_all add: plain_env_def node_env_def)

section \<open>Facts about insertion-ordered sets\<close>

lemma set_set_add: "set (set_add s x) = insert x (set s)"
  by (auto simp: set_add_def)

lemma distinct_set_add: "distinct s \<Longrightarrow> distinct (set_add s x)"
  by (simp add: set_add_def)

lemma set_foldl_set_add: "set (foldl set_add s xs) = set s \<union> set xs"
  by (induction xs arbitrary: s) (auto simp: set_set_add)

lemma distinct_foldl_set_add: "distinct s \<Longrightarrow> distinct (foldl set_add s xs)"
  by (induction xs arbitrary: s) (auto simp: distinct_set_add)

lemma set_new_Set: "set (new_Set xs) = set xs"
  by (simp add: new_Set_def set_foldl_set_add)

lemma distinct_new_Set: "distinct (new_Set xs)"
  by (simp add: new_Set_def distinct_foldl_set_add)

lemma foldl_set_add_absorb:
  "distinct s \<Longrightarrow> set xs \<subseteq> set s \<Longrightarrow> foldl set_add s xs = s"
  by (induction xs arbitrary: s) (auto simp: set_add_def)

lemma foldl_set_add_distinct:
  "distinct (s @ xs) \<Longrightarrow> foldl set_add s xs = s @ xs"
proof (induction xs arbitrary: s)
  case Nil
  then show ?case by simp
next
  case (Cons x xs)
  have "set_add s x = s @ [x]"
    using Cons.prems by (simp add: set_add_def)
  moreover have "distinct ((s @ [x]) @ xs)"
    using Cons.prems by simp
  ultimately show ?case
    using Cons.IH [of "s @ [x]"] by simp
qed

section \<open>Facts about combinePerms\<close>

lemma set_defined_perms: "set (defined_perms xs) = {p. Some p \<in> set xs}"
  by (induction xs rule: defined_perms.induct) auto

lemma perms_foldl_perm_step:
  "set (perms (foldl perm_step acc xs)) =
     set (perms acc) \<union> {p \<in> set xs. \<not> startsWith p ''!''}"
  by (induction xs arbitrary: acc) (auto simp: perm_step_def set_set_add)

lemma xperms_foldl_perm_step:
  "set (xperms (foldl perm_step acc xs)) =
     set (xperms acc) \<union> {drop 1 p | p. p \<in> set xs \<and> startsWith p ''!''}"
  by (induction xs arbitrary: acc) (auto simp: perm_step_def set_set_add)

lemma distinct_perms_foldl_perm_step:
  "distinct (perms acc) \<Longrightarrow> distinct (perms (foldl perm_step acc xs))"
  by (induction xs arbitrary: acc) (auto simp: perm_step_def distinct_set_add)

lemma startsWith_bang: "startsWith p ''!'' \<longleftrightarrow> (\<exists>q. p = CHR ''!'' # q)"
  by (cases p) (auto simp: startsWith_def)

lemma set_combinePerms:
  "set (combinePerms args) =
     {p. Some p \<in> set (flat args) \<and> \<not> startsWith p ''!''
         \<and> Some (CHR ''!'' # p) \<notin> set (flat args)}"
  unfolding combinePerms_def Let_def
  by (auto simp: perms_foldl_perm_step xperms_foldl_perm_step set_defined_perms
      startsWith_bang)

lemma distinct_combinePerms: "distinct (combinePerms args)"
  unfolding combinePerms_def Let_def
  by (simp add: distinct_perms_foldl_perm_step)

lemma mset_flat_Cons: "mset (flat (x # xs)) = mset (flat [x]) + mset (flat xs)"
  by (cases x) simp_all

lemma mset_flat_permute:
  "mset xs = mset ys \<Longrightarrow> mset (flat xs) = mset (flat ys)"
proof (induction xs arbitrary: ys)
  case Nil
  then show ?case by simp
next
  case (Cons x xs)
  from Cons.prems have "x \<in> set ys"
    by (metis list.set_intros(1) set_mset_mset)
  then obtain us vs where ys: "ys = us @ x # vs"
    by (meson split_list)
  with Cons.prems have "mset xs = mset (us @ vs)" by simp
  then have IH: "mset (flat xs) = mset (flat (us @ vs))" by (rule Cons.IH)
  have app: "mset (flat (as @ bs)) = mset (flat as) + mset (flat bs)" for as bs
  proof (induction as)
    case Nil
    then show ?case by simp
  next
    case (Cons a as)
    show ?case
      using Cons.IH mset_flat_Cons [of a "as @ bs"] mset_flat_Cons [of a as] by simp
  qed
  show ?case
    using IH app [of us vs] app [of us "x # vs"] mset_flat_Cons [of x xs]
      mset_flat_Cons [of x vs] ys by simp
qed

lemma combinePerms_flat_set:
  "set (flat xs) = set (flat ys) \<Longrightarrow> mset (combinePerms xs) = mset (combinePerms ys)"
proof -
  assume "set (flat xs) = set (flat ys)"
  then have "set (combinePerms xs) = set (combinePerms ys)"
    by (simp add: set_combinePerms)
  then show ?thesis
    using distinct_combinePerms set_eq_iff_mset_eq_distinct by blast
qed

lemma flat_map_Perm: "flat (map Perm ps) = map Some ps"
  by (induction ps) simp_all

lemma defined_perms_map_Some: "defined_perms (map Some ps) = ps"
  by (induction ps) simp_all

lemma foldl_perm_step_plain:
  "\<forall>p\<in>set ps. \<not> startsWith p ''!'' \<Longrightarrow>
     foldl perm_step acc ps = acc\<lparr>perms := foldl set_add (perms acc) ps\<rparr>"
  by (induction ps arbitrary: acc) (simp_all add: perm_step_def)

lemma combinePerms_plain:
  assumes "distinct ps" and "\<forall>p\<in>set ps. \<not> startsWith p ''!''"
  shows "combinePerms [Nested (map Perm ps)] = ps"
proof -
  have "foldl set_add [] ps = ps"
    using foldl_set_add_distinct [of "[]" ps] assms(1) by simp
  then show ?thesis
    using assms(2)
    by (simp add: combinePerms_def flat_map_Perm defined_perms_map_Some
        foldl_perm_step_plain)
qed

section \<open>Claims about combinePerms\<close>

text \<open>
  C4.  Whatever the arguments, \<open>combinePerms\<close> returns exactly the entries that do not
  start with \<open>!\<close> and whose name does not occur with a \<open>!\<close> prefix anywhere among the
  flattened arguments; the result has no \<open>!\<close>-prefixed entry and no duplicate; and
  \<open>combinePerms(["a","b","!b"])\<close> is \<open>["a"]\<close>.
\<close>

theorem combinePerms_result:
  "set (combinePerms args) =
       {p. Some p \<in> set (flat args) \<and> \<not> startsWith p ''!''
           \<and> Some (CHR ''!'' # p) \<notin> set (flat args)}
   \<and> filter (\<lambda>p. startsWith p ''!'') (combinePerms args) = []
   \<and> distinct (combinePerms args)
   \<and> combinePerms [Nested [Perm ''a'', Perm ''b'', Perm ''!b'']] = [''a'']"
proof -
  have "filter (\<lambda>p. startsWith p ''!'') (combinePerms args) = []"
    by (simp add: filter_empty_conv set_combinePerms)
  moreover have "combinePerms [Nested [Perm ''a'', Perm ''b'', Perm ''!b'']] = [''a'']"
    by (simp add: combinePerms_def perm_step_def set_add_def startsWith_def)
  ultimately show ?thesis
    using set_combinePerms [of args] distinct_combinePerms [of args] by blast
qed

theorem combinePerms_result_witness:
  "set (combinePerms [Perm ''tabs'', Undefined, Nested [Perm ''!tabs'', Perm ''storage'']])
     = {''storage''}
   \<and> combinePerms [Perm ''tabs'', Undefined, Nested [Perm ''!tabs'', Perm ''storage'']]
     = [''storage'']"
proof -
  have "combinePerms [Perm ''tabs'', Undefined, Nested [Perm ''!tabs'', Perm ''storage'']]
          = [''storage'']"
    by (simp add: combinePerms_def perm_step_def set_add_def startsWith_def)
  then show ?thesis
    using combinePerms_result
      [of "[Perm ''tabs'', Undefined, Nested [Perm ''!tabs'', Perm ''storage'']]"]
    by simp
qed

text \<open>
  C9, as stated, fails: the result lists its entries in the order in which they were
  first met, so exchanging two argument lists exchanges entries of the result.
\<close>

theorem combinePerms_order_counterexample:
  "combinePerms [Nested [Perm ''a''], Nested [Perm ''b'']]
     \<noteq> combinePerms [Nested [Perm ''b''], Nested [Perm ''a'']]"
  by (simp add: combinePerms_def perm_step_def set_add_def startsWith_def)

text \<open>
  C9, amended.  Permuting the argument lists, or the entries inside them, permutes the
  result: it keeps the same entries, each once.  Applying \<open>combinePerms\<close> to its own
  output returns that output unchanged.
\<close>

theorem combinePerms_permute_idem:
  "(mset xs = mset ys \<longrightarrow> mset (combinePerms xs) = mset (combinePerms ys))
   \<and> (mset (flat xs) = mset (flat ys) \<longrightarrow> mset (combinePerms xs) = mset (combinePerms ys))
   \<and> combinePerms [Nested (map Perm (combinePerms xs))] = combinePerms xs"
proof -
  have flat: "mset (flat xs) = mset (flat ys) \<Longrightarrow>
      mset (combinePerms xs) = mset (combinePerms ys)"
    using combinePerms_flat_set [of xs ys] by (metis set_mset_mset)
  have "\<forall>p\<in>set (combinePerms xs). \<not> startsWith p ''!''"
    by (simp add: set_combinePerms)
  then have "combinePerms [Nested (map Perm (combinePerms xs))] = combinePerms xs"
    using combinePerms_plain distinct_combinePerms by blast
  then show ?thesis
    using flat mset_flat_permute [of xs ys] by blast
qed

theorem combinePerms_permute_idem_witness:
  "mset [Nested [Perm ''a'', Perm ''!c''], Nested [Perm ''b'', Perm ''c'']]
     = mset [Nested [Perm ''b'', Perm ''c''], Nested [Perm ''a'', Perm ''!c'']]
   \<and> mset (combinePerms [Nested [Perm ''a'', Perm ''!c''], Nested [Perm ''b'', Perm ''c'']])
     = mset (combinePerms [Nested [Perm ''b'', Perm ''c''], Nested [Perm ''a'', Perm ''!c'']])
   \<and> combinePerms [Nested [Perm ''a'', Perm ''!c''], Nested [Perm ''b'', Perm ''c'']]
     = [''a'', ''b'']"
proof -
  have perm: "mset [Nested [Perm ''a'', Perm ''!c''], Nested [Perm ''b'', Perm ''c'']]
     = mset [Nested [Perm ''b'', Perm ''c''], Nested [Perm ''a'', Perm ''!c'']]"
    by (simp add: add.commute)
  have val: "combinePerms [Nested [Perm ''a'', Perm ''!c''], Nested [Perm ''b'', Perm ''c'']]
     = [''a'', ''b'']"
    by (simp add: combinePerms_def perm_step_def set_add_def startsWith_def)
  show ?thesis
    using perm val combinePerms_permute_idem
      [of "[Nested [Perm ''a'', Perm ''!c''], Nested [Perm ''b'', Perm ''c'']]"
          "[Nested [Perm ''b'', Perm ''c''], Nested [Perm ''a'', Perm ''!c'']]"]
    by blast
qed

section \<open>Facts about reduceToRecord\<close>

lemma reduce_files_Defined:
  "reduce_files env (Defined dir) r files = reduce_err (reducer env dir) r files"
  by (simp add: reduce_files_def reduceToRecord_def)

lemma in_op_snoc: "in_op k (r @ [(k', v)]) \<longleftrightarrow> k = k' \<or> in_op k r"
  by (auto simp: in_op_def)

lemma reduce_err_reducer_ok:
  "distinct (map (entry_name env dir) files) \<Longrightarrow>
   \<forall>f\<in>set files. \<not> in_op (entry_name env dir f) r \<Longrightarrow>
   reduce_err (reducer env dir) r files = Inr (r @ map (\<lambda>f. (entry_name env dir f, f)) files)"
proof (induction files arbitrary: r)
  case Nil
  then show ?case by simp
next
  case (Cons f files)
  have step: "reducer env dir r f = Inr (r @ [(entry_name env dir f, f)])"
    using Cons.prems(2) by (simp add: reducer_def)
  have fresh: "entry_name env dir g \<noteq> entry_name env dir f" if "g \<in> set files" for g
    using Cons.prems(1) that by (metis distinct.simps(2) image_eqI list.simps(9) set_map)
  have "\<forall>g\<in>set files. \<not> in_op (entry_name env dir g) (r @ [(entry_name env dir f, f)])"
    using Cons.prems(2) fresh by (simp add: in_op_snoc)
  moreover have "distinct (map (entry_name env dir) files)"
    using Cons.prems(1) by simp
  ultimately show ?case
    using Cons.IH [of "r @ [(entry_name env dir f, f)]"] step by simp
qed

lemma reduce_err_reducer_clash:
  "\<not> distinct (map (entry_name env dir) files)
     \<or> (\<exists>f\<in>set files. in_op (entry_name env dir f) r) \<Longrightarrow>
   \<exists>msg. reduce_err (reducer env dir) r files = Inl (Error msg)"
proof (induction files arbitrary: r)
  case Nil
  then show ?case by simp
next
  case (Cons f files)
  show ?case
  proof (cases "in_op (entry_name env dir f) r")
    case True
    then show ?thesis by (simp add: reducer_def)
  next
    case False
    then have step: "reducer env dir r f = Inr (r @ [(entry_name env dir f, f)])"
      by (simp add: reducer_def)
    have "\<not> distinct (map (entry_name env dir) files)
            \<or> (\<exists>g\<in>set files. in_op (entry_name env dir g) (r @ [(entry_name env dir f, f)]))"
      using Cons.prems False by (auto simp: in_op_snoc)
    then show ?thesis
      using Cons.IH [of "r @ [(entry_name env dir f, f)]"] step by simp
  qed
qed

lemma map_of_entries:
  assumes "distinct (map nm files)" and "f \<in> set files" and "nm f \<notin> fst ` set r"
  shows "map_of (r @ map (\<lambda>f. (nm f, f)) files) (nm f) = Some f"
proof -
  have "map_of r (nm f) = None"
    using assms(3) by (simp add: map_of_eq_None_iff)
  moreover have "map_of (map (\<lambda>f. (nm f, f)) files) (nm f) = Some f"
    using assms(1,2) by (induction files) (auto simp: rev_image_eqI)
  ultimately show ?thesis
    by (simp add: map_add_def)
qed

lemma same_name_not_distinct:
  "p \<in> set files \<Longrightarrow> q \<in> set files \<Longrightarrow> p \<noteq> q \<Longrightarrow> nm p = nm q \<Longrightarrow>
   \<not> distinct (map nm files)"
  by (meson distinct_map inj_onD)

section \<open>Claims about reduceToRecord\<close>

text \<open>
  C10, as stated, fails: a list that names the same path twice has no two distinct
  paths with one entry name, yet folding it throws.
\<close>

theorem reduceToRecord_repeated_path_counterexample:
  "reduce_files plain_env
       (Defined ''/src'') [] [''/src/a.js'', ''/src/a.js'']
     = Inl (Error (overwrite_message ''/src/a.js'' (Some ''/src/a.js'')))
   \<and> set [''/src/a.js'', ''/src/a.js''] = {''/src/a.js''}"
  by (simp add: reduce_files_def reduceToRecord_def reducer_def entry_name_def plain_env_simps
      posix_relative_def in_op_def Object_prototype_names_def)

text \<open>
  C10, amended.  With a \<open>null\<close> or \<open>undefined\<close> source directory the fold throws a
  TypeError at once.  With a defined directory it throws an Error whenever two entries
  of the list (two distinct paths, or one path listed twice) have the same entry name,
  or an entry name is already a key of the starting record.  When the entry names are
  pairwise different and none of them is a property of the starting record, own or
  inherited, it returns the starting record extended by one entry per file, which maps
  each entry name to its file.
\<close>

theorem reduceToRecord_fold:
  "reduce_files env JsNull r files = Inl (TypeError ''srcDir is null or undefined'')
   \<and> reduce_files env JsUndefined r files = Inl (TypeError ''srcDir is null or undefined'')
   \<and> ((\<exists>p\<in>set files. \<exists>q\<in>set files. p \<noteq> q \<and> entry_name env dir p = entry_name env dir q)
        \<longrightarrow> (\<exists>msg. reduce_files env (Defined dir) r files = Inl (Error msg)))
   \<and> (\<not> distinct (map (entry_name env dir) files)
          \<or> (\<exists>f\<in>set files. entry_name env dir f \<in> fst ` set r)
        \<longrightarrow> (\<exists>msg. reduce_files env (Defined dir) r files = Inl (Error msg)))
   \<and> (distinct (map (entry_name env dir) files)
          \<and> (\<forall>f\<in>set files. \<not> in_op (entry_name env dir f) r)
        \<longrightarrow> (\<exists>r'. reduce_files env (Defined dir) r files = Inr r'
               \<and> r' = r @ map (\<lambda>f. (entry_name env dir f, f)) files
               \<and> (\<forall>f\<in>set files. map_of r' (entry_name env dir f) = Some f)))"
proof -
  have null: "reduce_files env JsNull r files = Inl (TypeError ''srcDir is null or undefined'')"
    and undef: "reduce_files env JsUndefined r files
                  = Inl (TypeError ''srcDir is null or undefined'')"
    by (simp_all add: reduce_files_def reduceToRecord_def)
  have clash: "\<exists>msg. reduce_files env (Defined dir) r files = Inl (Error msg)"
    if "\<not> distinct (map (entry_name env dir) files)
          \<or> (\<exists>f\<in>set files. entry_name env dir f \<in> fst ` set r)"
  proof -
    from that have "\<not> distinct (map (entry_name env dir) files)
          \<or> (\<exists>f\<in>set files. in_op (entry_name env dir f) r)"
      by (auto simp: in_op_def)
    then show ?thesis
      using reduce_err_reducer_clash [of env dir files r] by (simp add: reduce_files_Defined)
  qed
  have two: "\<exists>msg. reduce_files env (Defined dir) r files = Inl (Error msg)"
    if "\<exists>p\<in>set files. \<exists>q\<in>set files. p \<noteq> q \<and> entry_name env dir p = entry_name env dir q"
    using that clash same_name_not_distinct [of _ files _ "entry_name env dir"] by blast
  have ok: "\<exists>r'. reduce_files env (Defined dir) r files = Inr r'
               \<and> r' = r @ map (\<lambda>f. (entry_name env dir f, f)) files
               \<and> (\<forall>f\<in>set files. map_of r' (entry_name env dir f) = Some f)"
    if d: "distinct (map (entry_name env dir) files)"
      and n: "\<forall>f\<in>set files. \<not> in_op (entry_name env dir f) r"
  proof -
    have "reduce_files env (Defined dir) r files
            = Inr (r @ map (\<lambda>f. (entry_name env dir f, f)) files)"
      using reduce_err_reducer_ok [OF d n] by (simp add: reduce_files_Defined)
    moreover have "map_of (r @ map (\<lambda>f. (entry_name env dir f, f)) files)
                     (entry_name env dir f) = Some f" if "f \<in> set files" for f
      using map_of_entries [OF d that, of r] n that by (simp add: in_op_def)
    ultimately show ?thesis by simp
  qed
  show ?thesis
    using null undef two clash ok by blast
qed

theorem reduceToRecord_fold_witness:
  "distinct (map (entry_name plain_env ''/src'')
       [''/src/background.ts'', ''/src/pages/popup.html''])
   \<and> reduce_files plain_env
        (Defined ''/src'') [] [''/src/background.ts'', ''/src/pages/popup.html'']
     = Inr [(''background'', ''/src/background.ts''), (''pages/popup'', ''/src/pages/popup.html'')]
   \<and> (\<exists>msg. reduce_files plain_env
        (Defined ''/src'') [] [''/src/a.js'', ''/src/a.ts''] = Inl (Error msg))"
proof -
  let ?env = plain_env
  have names: "entry_name ?env ''/src'' ''/src/background.ts'' = ''background''"
    "entry_name ?env ''/src'' ''/src/pages/popup.html'' = ''pages/popup''"
    "entry_name ?env ''/src'' ''/src/a.js'' = ''a''"
    "entry_name ?env ''/src'' ''/src/a.ts'' = ''a''"
    by (simp_all add: entry_name_def plain_env_simps posix_relative_def)
  have fresh: "\<not> in_op ''background'' ([] :: input_record)"
    "\<not> in_op ''pages/popup'' ([] :: input_record)"
    by (simp_all add: in_op_def Object_prototype_names_def)
  show ?thesis
    using reduceToRecord_fold
      [of ?env "[]" "[''/src/background.ts'', ''/src/pages/popup.html'']" "''/src''"]
      reduceToRecord_fold [of ?env "[]" "[''/src/a.js'', ''/src/a.ts'']" "''/src''"]
      names fresh
    by simp
qed

section \<open>Facts about deriveFiles\<close>

lemma set_filter_isString: "set (filter_isString ary) = {s. Some s \<in> set ary}"
  by (induction ary rule: filter_isString.induct) auto

lemma filter_isString_append:
  "filter_isString (xs @ ys) = filter_isString xs @ filter_isString ys"
  by (induction xs rule: filter_isString.induct) auto

lemma set_validate:
  "set (validate env srcDir ary) = path_join env srcDir ` set (filter_isString ary)"
  by (simp add: validate_def set_new_Set)

lemma distinct_validate:
  "inj_on (path_join env srcDir) (set (filter_isString ary)) \<Longrightarrow>
   distinct (validate env srcDir ary)"
  by (simp add: validate_def distinct_map distinct_new_Set set_new_Set)

lemma validate_disjoint:
  assumes "inj_on (path_join env srcDir) (set (filter_isString xs) \<union> set (filter_isString ys))"
    and "set xs \<inter> set ys = {}"
  shows "set (validate env srcDir xs) \<inter> set (validate env srcDir ys) = {}"
proof -
  have "set (filter_isString xs) \<inter> set (filter_isString ys) = {}"
    using assms(2) by (auto simp: set_filter_isString)
  then show ?thesis
    using assms(1) unfolding set_validate
    by (metis inj_on_image_Int image_empty sup_ge1 sup_ge2)
qed

lemma difference_disjoint:
  "ys \<in> set excluded \<Longrightarrow> set (difference xs excluded) \<inter> set ys = {}"
  by (auto simp: difference_def)

lemma collectMV3_others:
  assumes "collectMV3 env m srcDir options = Inr c"
  shows "\<exists>files. raw_others c = difference files
           [raw_css c, raw_contentScripts c, raw_js c, raw_html c, raw_img c]"
proof (cases "reduce_err (expand_glob env srcDir) []
             (concat (map (\<lambda>e. case e of WarRule resources _ \<Rightarrow> map Some resources
                                      | WarPath _ \<Rightarrow> [None])
                          (case web_accessible_resources m of None \<Rightarrow> [] | Some w \<Rightarrow> w))
              @ map Some (locale_files m))")
  case (Inl e)
  with assms show ?thesis by (simp add: collectMV3_def)
next
  case (Inr files)
  with assms show ?thesis
    unfolding collectMV3_def Let_def by (intro exI [of _ "map Some files"]) auto
qed

lemma collectMV2_others:
  assumes "collectMV2 env m srcDir options = Inr c"
  shows "\<exists>files. raw_others c = difference files
           [raw_css c, raw_contentScripts c, raw_js c, raw_html c, raw_img c]"
proof (cases "reduce_err (expand_glob env srcDir) []
             (map (\<lambda>e. case e of WarPath p \<Rightarrow> Some p | WarRule _ _ \<Rightarrow> None)
                  (case web_accessible_resources m of None \<Rightarrow> [] | Some w \<Rightarrow> w)
              @ map Some (locale_files m))")
  case (Inl e)
  with assms show ?thesis by (simp add: collectMV2_def)
next
  case (Inr files)
  with assms show ?thesis
    unfolding collectMV2_def Let_def by (intro exI [of _ "map Some files"]) auto
qed

lemma collect_others:
  assumes "collect env m srcDir options = Inr c"
  shows "set (raw_others c) \<inter> set (raw_css c) = {}"
    and "set (raw_others c) \<inter> set (raw_contentScripts c) = {}"
    and "set (raw_others c) \<inter> set (raw_js c) = {}"
    and "set (raw_others c) \<inter> set (raw_html c) = {}"
    and "set (raw_others c) \<inter> set (raw_img c) = {}"
proof -
  obtain files where "raw_others c = difference files
           [raw_css c, raw_contentScripts c, raw_js c, raw_html c, raw_img c]"
    using assms collectMV3_others collectMV2_others
    by (metis collect_def)
  then show "set (raw_others c) \<inter> set (raw_css c) = {}"
    and "set (raw_others c) \<inter> set (raw_contentScripts c) = {}"
    and "set (raw_others c) \<inter> set (raw_js c) = {}"
    and "set (raw_others c) \<inter> set (raw_html c) = {}"
    and "set (raw_others c) \<inter> set (raw_img c) = {}"
    by (simp_all add: difference_disjoint)
qed

lemma deriveFiles_collect:
  "deriveFiles env m srcDir options =
     (case collect env m srcDir options of
        Inl e \<Rightarrow> Inl e
      | Inr c \<Rightarrow> Inr (validate_all env srcDir c))"
  by (simp add: deriveFiles_def collect_def deriveFilesMV3_def deriveFilesMV2_def)

section \<open>Claims about deriveFiles\<close>

text \<open>
  C1, as stated, fails: the plugin derives files with the option \<open>contentScripts\<close> set,
  and then every content script is listed under \<open>js\<close> as well as under
  \<open>contentScripts\<close>.
\<close>

theorem deriveFiles_js_contentScripts_counterexample:
  "deriveFiles plain_env
     (empty_manifest\<lparr>manifest_version := Some 3,
        content_scripts := Some [\<lparr>cs_matches = None, cs_js = Some [''content.js''], cs_css = None\<rparr>]\<rparr>)
     ''/src'' \<lparr>opt_contentScripts = True\<rparr>
   = Inr \<lparr>css = [], contentScripts = [''/src/content.js''], js = [''/src/content.js''],
          html = [], img = [], others = []\<rparr>"
  by (simp add: deriveFiles_def deriveFilesMV3_def collectMV3_def empty_manifest_def
      locale_files_def content_script_js_def content_script_css_def icon_values_def
      Object_values_def difference_def validate_all_def validate_def new_Set_def set_add_def
      plain_env_simps posix_join_def posix_normalize_def Let_def)

text \<open>
  C1, amended.  Whenever a derivation returns, for a manifest of either version, and
  joining with the source directory sends different collected paths to different
  files, each of the six lists is free of duplicates and \<open>others\<close> has no path in common
  with any of \<open>css\<close>, \<open>contentScripts\<close>, \<open>js\<close>, \<open>html\<close> and \<open>img\<close>.
\<close>

theorem deriveFiles_categories:
  assumes "collect env m srcDir options = Inr c"
    and "inj_on (path_join env srcDir) (collected_paths c)"
  shows "\<exists>d. deriveFiles env m srcDir options = Inr d
           \<and> distinct (css d) \<and> distinct (contentScripts d) \<and> distinct (js d)
           \<and> distinct (html d) \<and> distinct (img d) \<and> distinct (others d)
           \<and> set (others d) \<inter> set (css d) = {}
           \<and> set (others d) \<inter> set (contentScripts d) = {}
           \<and> set (others d) \<inter> set (js d) = {}
           \<and> set (others d) \<inter> set (html d) = {}
           \<and> set (others d) \<inter> set (img d) = {}"
proof -
  let ?d = "validate_all env srcDir c"
  have derived: "deriveFiles env m srcDir options = Inr ?d"
    using assms(1) by (simp add: deriveFiles_collect)
  have inj: "inj_on (path_join env srcDir) (set (filter_isString xs))"
    if "set (filter_isString xs) \<subseteq> collected_paths c" for xs
    using assms(2) that by (rule inj_on_subset)
  have inj2: "inj_on (path_join env srcDir)
      (set (filter_isString xs) \<union> set (filter_isString ys))"
    if "set (filter_isString xs) \<subseteq> collected_paths c"
      and "set (filter_isString ys) \<subseteq> collected_paths c" for xs ys
    using assms(2) that by (simp add: inj_on_subset)
  have sub: "set (filter_isString (raw_css c)) \<subseteq> collected_paths c"
    "set (filter_isString (raw_contentScripts c)) \<subseteq> collected_paths c"
    "set (filter_isString (raw_js c)) \<subseteq> collected_paths c"
    "set (filter_isString (raw_html c)) \<subseteq> collected_paths c"
    "set (filter_isString (raw_img c)) \<subseteq> collected_paths c"
    "set (filter_isString (raw_others c)) \<subseteq> collected_paths c"
    by (auto simp: collected_paths_def filter_isString_append)
  have dist: "distinct (css ?d)" "distinct (contentScripts ?d)" "distinct (js ?d)"
    "distinct (html ?d)" "distinct (img ?d)" "distinct (others ?d)"
    using sub by (simp_all add: validate_all_def distinct_validate inj)
  have disj: "set (others ?d) \<inter> set (css ?d) = {}"
    "set (others ?d) \<inter> set (contentScripts ?d) = {}"
    "set (others ?d) \<inter> set (js ?d) = {}"
    "set (others ?d) \<inter> set (html ?d) = {}"
    "set (others ?d) \<inter> set (img ?d) = {}"
    using sub collect_others [OF assms(1)]
    by (simp_all add: validate_all_def validate_disjoint inj2)
  show ?thesis
    using derived dist disj by blast
qed

theorem deriveFiles_categories_witness:
  "collect plain_env
     (empty_manifest\<lparr>manifest_version := Some 2,
        content_scripts := Some [\<lparr>cs_matches = None, cs_js = Some [''content.ts''],
                                  cs_css = Some [''page.css'']\<rparr>],
        icons := Some (IconMap [(''16'', ''icon.png'')]),
        web_accessible_resources := Some [WarPath ''fonts/a.woff'', WarPath ''page.css'']\<rparr>)
     ''/src'' \<lparr>opt_contentScripts = False\<rparr>
   = Inr \<lparr>raw_css = [Some ''page.css'', Some ''page.css''],
          raw_contentScripts = [Some ''content.ts''],
          raw_js = [],
          raw_html = [None, None, None, None, None, None],
          raw_img = [Some ''icon.png''],
          raw_others = [Some ''fonts/a.woff'']\<rparr>
   \<and> (\<exists>d. deriveFiles plain_env
     (empty_manifest\<lparr>manifest_version := Some 2,
        content_scripts := Some [\<lparr>cs_matches = None, cs_js = Some [''content.ts''],
                                  cs_css = Some [''page.css'']\<rparr>],
        icons := Some (IconMap [(''16'', ''icon.png'')]),
        web_accessible_resources := Some [WarPath ''fonts/a.woff'', WarPath ''page.css'']\<rparr>)
     ''/src'' \<lparr>opt_contentScripts = False\<rparr> = Inr d
       \<and> distinct (css d) \<and> set (others d) \<inter> set (css d) = {})"
proof -
  let ?m = "empty_manifest\<lparr>manifest_version := Some 2,
        content_scripts := Some [\<lparr>cs_matches = None, cs_js = Some [''content.ts''],
                                  cs_css = Some [''page.css'']\<rparr>],
        icons := Some (IconMap [(''16'', ''icon.png'')]),
        web_accessible_resources := Some [WarPath ''fonts/a.woff'', WarPath ''page.css'']\<rparr>"
  let ?c = "\<lparr>raw_css = [Some ''page.css'', Some ''page.css''],
          raw_contentScripts = [Some ''content.ts''],
          raw_js = [],
          raw_html = [None, None, None, None, None, None],
          raw_img = [Some ''icon.png''],
          raw_others = [Some ''fonts/a.woff'']\<rparr>"
  have c: "collect plain_env ?m ''/src'' \<lparr>opt_contentScripts = False\<rparr> = Inr ?c"
    by (simp add: collect_def collectMV2_def empty_manifest_def expand_glob_def
        locale_files_def content_script_js_def content_script_css_def icon_values_def
        actionIconSet_def action_icons_def new_Set_def
        Object_values_def difference_def plain_env_simps hasMagic_model_def Let_def
        is_script_def is_html_def is_image_def has_suffix_def endsWith_def lower_ascii_def)
  have i: "inj_on (path_join plain_env ''/src'') (collected_paths ?c)"
    by (simp add: collected_paths_def plain_env_simps posix_join_def posix_normalize_def)
  show ?thesis
    using c deriveFiles_categories [OF c i] by blast
qed

section \<open>Facts about splitting strings\<close>

lemma split_str_not_Nil: "split_str sep s \<noteq> []"
  by (induction s) (auto split: list.splits)

lemma split_str_absent:
  "\<not> (\<exists>u v. s = u @ sep @ v) \<Longrightarrow> split_str sep s = [s]"
proof (induction s)
  case Nil
  then show ?case by simp
next
  case (Cons c cs)
  have "\<not> prefix sep (c # cs)"
    using Cons.prems by (metis append_Nil prefixE)
  moreover have "\<not> (\<exists>u v. cs = u @ sep @ v)"
    using Cons.prems by (metis append_Cons)
  ultimately show ?case
    using Cons.IH by simp
qed

lemma split_str_first:
  "sep \<noteq> [] \<Longrightarrow> hd sep \<notin> set a \<Longrightarrow> split_str sep (a @ sep @ b) = a # split_str sep b"
proof (induction a)
  case Nil
  then show ?case
    by (cases sep) simp_all
next
  case (Cons x a)
  have "\<not> prefix sep (x # a @ sep @ b)"
    using Cons.prems by (cases sep) auto
  then show ?case
    using Cons by simp
qed

lemma absent_first_char: "sep \<noteq> [] \<Longrightarrow> hd sep \<notin> set s \<Longrightarrow> \<not> (\<exists>u v. s = u @ sep @ v)"
  by (cases sep) auto

section \<open>Facts about convertMatchPatterns\<close>

text \<open>
  Where the conversion keeps scheme and host.  For a pattern \<open>scheme://host/path\<close>
  without \<open>:*\<close> and without a second \<open>://\<close>, and for a pattern \<open>scheme://host:*/path\<close>
  with no other colon, the result is \<open>scheme://host/*\<close> or \<open>scheme://host:*/*\<close>, as long
  as the URL parser returns the host (with the placeholder port) as the origin and
  \<open>unescape\<close> finds nothing to decode.
\<close>

lemma convertMatchPatterns_host:
  assumes scheme: "CHR '':'' \<notin> set scheme"
    and no_port: "\<not> (\<exists>u v. host @ path = u @ '':*'' @ v)"
    and no_scheme: "\<not> (\<exists>u v. host @ path = u @ ''://'' @ v)"
    and origin: "url_origin env (''http://'' @ host @ path) = Some (''http://'' @ host)"
    and plain: "unescape env (scheme @ ''://'' @ host @ ''/*'') = scheme @ ''://'' @ host @ ''/*''"
  shows "convertMatchPatterns env (scheme @ ''://'' @ host @ path)
           = Inr (scheme @ ''://'' @ host @ ''/*'')"
proof -
  have split: "split_str ''://'' (scheme @ ''://'' @ host @ path) = [scheme, host @ path]"
    using split_str_first [of "''://''" scheme "host @ path"] scheme
      split_str_absent [OF no_scheme] by simp
  have parts: "split_wild_port (host @ path) = [host @ path]"
    using split_str_absent [OF no_port] by (simp add: split_wild_port_def)
  have "\<not> (\<exists>u v. host = u @ ''://'' @ v)"
    using no_scheme by (metis append.assoc)
  then have base: "split_str ''://'' (''http://'' @ host) = [''http'', host]"
    using split_str_first [of "''://''" "''http''" host] split_str_absent [of host "''://''"]
    by simp
  show ?thesis
    unfolding convertMatchPatterns_def split list.case Let_def parts
    using origin base plain
    by (simp add: nth_or_undefined_def)
qed

lemma split_scheme_wild:
  assumes "CHR '':'' \<notin> set host" and "CHR '':'' \<notin> set path"
  shows "split_str ''://'' (host @ '':*'' @ path) = [host @ '':*'' @ path]"
  using assms(1)
proof (induction host)
  case Nil
  have "split_str ''://'' (CHR ''*'' # path) = [CHR ''*'' # path]"
    using split_str_absent [of "CHR ''*'' # path" "''://''"] assms(2)
      absent_first_char [of "''://''" "CHR ''*'' # path"] by simp
  then show ?case by simp
next
  case (Cons x host)
  then show ?case by simp
qed

lemma split_scheme_port:
  assumes "CHR '':'' \<notin> set host"
  shows "split_str ''://'' (host @ '':3333'') = [host @ '':3333'']"
  using assms by (induction host) simp_all

lemma convertMatchPatterns_wildcard_port:
  assumes scheme: "CHR '':'' \<notin> set scheme"
    and host: "CHR '':'' \<notin> set host"
    and path: "CHR '':'' \<notin> set path"
    and origin: "url_origin env (''http://'' @ host @ '':3333'' @ path)
                   = Some (''http://'' @ host @ '':3333'')"
    and plain: "unescape env (scheme @ ''://'' @ host @ '':*/*'')
                   = scheme @ ''://'' @ host @ '':*/*''"
  shows "convertMatchPatterns env (scheme @ ''://'' @ host @ '':*'' @ path)
           = Inr (scheme @ ''://'' @ host @ '':*/*'')"
proof -
  have split: "split_str ''://'' (scheme @ ''://'' @ host @ '':*'' @ path)
                 = [scheme, host @ '':*'' @ path]"
    using split_str_first [of "''://''" scheme "host @ '':*'' @ path"] scheme
      split_scheme_wild [OF host path] by simp
  have "split_str '':*'' path = [path]"
    using split_str_absent [of path "'':*''"] absent_first_char [of "'':*''" path] path by simp
  then have parts: "split_wild_port (host @ '':*'' @ path) = [host, '':*'', path]"
    using split_str_first [of "'':*''" host path] host by (simp add: split_wild_port_def)
  have base: "split_str ''://'' (''http://'' @ host @ '':3333'') = [''http'', host @ '':3333'']"
    using split_str_first [of "''://''" "''http''" "host @ '':3333''"] split_scheme_port [OF host]
    by simp
  have xy: "split_str '':3333'' (host @ '':3333'') = [host, []]"
    using split_str_first [of "'':3333''" host "[]"] host by simp
  show ?thesis
    unfolding convertMatchPatterns_def split list.case Let_def parts
    using origin base xy plain
    by (simp add: nth_or_undefined_def template_str_def join_undefined_def)
qed


section \<open>Claims about convertMatchPatterns\<close>

lemma url_origin_path_port:
  "url_origin_model ''http://example.com/foo:3333'' = Some ''http://example.com''"
  by (simp add: url_origin_model_def startsWith_def after_last_def before_last_def
      forbidden_host_char_def lower_ascii_def Let_def decimal_value_def)

text \<open>
  C3.  The code takes the first \<open>:*\<close> of the text after \<open>://\<close> for a wildcard port,
  also when it stands in the path.  For \<open>https://example.com/foo:*\<close> the URL parser
  sees \<open>http://example.com/foo:3333\<close>, whose origin has no port to put back, and the
  \<open>:*\<close> is appended to the host: the result is \<open>https://example.com:*/*\<close>, not
  \<open>https://example.com/*\<close>.
\<close>

theorem convertMatchPatterns_wildcard_in_path:
  "convertMatchPatterns plain_env ''https://example.com/foo:*'' = Inr ''https://example.com:*/*''"
proof -
  have split: "split_str ''://'' ''https://example.com/foo:*'' = [''https'', ''example.com/foo:*'']"
    by simp
  have parts: "split_wild_port ''example.com/foo:*'' = [''example.com/foo'', '':*'', []]"
    by (simp add: split_wild_port_def)
  have base: "split_str ''://'' ''http://example.com'' = [''http'', ''example.com'']"
    by simp
  have xy: "split_str '':3333'' ''example.com'' = [''example.com'']"
    by simp
  show ?thesis
    unfolding convertMatchPatterns_def split list.case Let_def parts
    by (simp add: nth_or_undefined_def template_str_def join_undefined_def plain_env_simps
        url_origin_path_port base xy)
qed

lemma show_digits_5: "show_digits 5 n = show_digits (Suc (Suc (Suc (Suc (Suc 0))))) n"
  by (simp add: eval_nat_numeral)

lemma show_digits_3333: "show_digits 5 3333 = ''3333''"
  unfolding show_digits_5 by simp

lemma decimal_3333: "decimal_value ''3333'' = 3333"
  by (simp add: decimal_value_def digit_value_def)

lemma url_origin_wildcard_host:
  "url_origin_model ''http://*.example.com:3333/path'' = Some ''http://*.example.com:3333''"
  by (simp add: url_origin_model_def startsWith_def after_last_def before_last_def
      forbidden_host_char_def lower_ascii_def Let_def decimal_3333 is_digit_def
      show_digits_3333)

lemma convert_wildcard_port_example:
  "convertMatchPatterns plain_env ''http://*.example.com:*/path'' = Inr ''http://*.example.com:*/*''"
  using convertMatchPatterns_wildcard_port
    [of "''http''" "''*.example.com''" "''/path''" plain_env]
  by (simp add: plain_env_simps url_origin_wildcard_host)

section \<open>Facts about updateManifestV3\<close>







lemma cloned_frame [simp]:
  "output_at (cloned m h) = output_at h"
  "next_ref (cloned m h) = Suc (next_ref h)"
  "manifest_at (cloned m h) (next_ref h) = set_module_type (manifest_at h m)"
  "r \<noteq> next_ref h \<Longrightarrow> manifest_at (cloned m h) r = manifest_at h r"
  by (simp_all add: cloned_def)

lemma set_module_type_fields [simp]:
  "content_scripts (set_module_type v) = content_scripts v"
  "host_permissions (set_module_type v) = host_permissions v"
  "web_accessible_resources (set_module_type v) = web_accessible_resources v"
  by (simp_all add: set_module_type_def split: option.splits)


lemma match_patterns_set_module_type [simp]:
  "match_patterns (set_module_type v) = match_patterns v"
  by (simp add: match_patterns_def)

lemma assign_chunkFileNames_frame [simp]:
  "manifest_at (assign_chunkFileNames cfn h r) = manifest_at h"
  "next_ref (assign_chunkFileNames cfn h r) = next_ref h"
  by (simp_all add: assign_chunkFileNames_def)

lemma foldl_assign_chunkFileNames_frame [simp]:
  "manifest_at (foldl (assign_chunkFileNames cfn) h rs) = manifest_at h"
  "next_ref (foldl (assign_chunkFileNames cfn) h rs) = next_ref h"
  by (induction rs arbitrary: h) simp_all


lemma chunkFileNames_values_cloned [simp]:
  "chunkFileNames_values (cloned m h) rs = chunkFileNames_values h rs"
  by (simp add: chunkFileNames_values_def)

lemma chosen_chunkFileNames_cloned [simp]:
  "chosen_chunkFileNames (cloned m h) out = chosen_chunkFileNames h out"
  by (simp add: chosen_chunkFileNames_def split: output_spec.splits list.splits)




lemma single_chunkFileNames_cloned [simp]:
  "single_chunkFileNames (cloned m h) out = single_chunkFileNames h out"
  by (simp add: single_chunkFileNames_def split: output_spec.splits)









lemma assign_manifest_frame [simp]:
  "output_at (assign_manifest r f h) = output_at h"
  "manifest_at (assign_manifest r f h) r = f (manifest_at h r)"
  "r' \<noteq> r \<Longrightarrow> manifest_at (assign_manifest r f h) r' = manifest_at h r'"
  by (simp_all add: assign_manifest_def)


section \<open>Evaluating the examples\<close>











section \<open>Claims about updateManifestV3\<close>













section \<open>Facts about the options hook\<close>



lemma load_manifest_conflict:
  assumes "getInputManifestPath env options = Inr paths"
    and "explorer_load env (inputManifestPath paths) = Inr configResult"
    and "\<not> isEmpty configResult"
    and "isPresent (options_page (config configResult))"
    and "isPresent (options_ui (config configResult))"
  shows "load_manifest cfg env options st =
     (Inl (Error ''options_ui and options_page cannot both be defined in manifest.json.''),
      st\<lparr>cache := assign_cacheValues paths (cache st)\<rparr>)"
  using assms by (simp add: load_manifest_def Let_def isPresent_def del: not_None_eq)





section \<open>Evaluating the hook on the example\<close>











section \<open>Claims about watchChange and the options hook\<close>





text \<open>
  C7.  When the options hook loads a manifest (none is cached, the manifest path is
  found and the file loads as a non-empty config) and the config defines both
  \<open>options_page\<close> and \<open>options_ui\<close>, the hook throws the error about both being defined.
  It has not called \<open>deriveFiles\<close>: the call count, the derived inputs, assets and
  content scripts of the cache are as before, and no manifest is cached.
\<close>

theorem options_hook_options_conflict:
  assumes "cache_manifest (cache st) = None"
    and "getInputManifestPath env options = Inr paths"
    and "explorer_load env (inputManifestPath paths) = Inr configResult"
    and "\<not> isEmpty configResult"
    and "isPresent (options_page (config configResult))"
    and "isPresent (options_ui (config configResult))"
  shows "options_hook cfg env options st =
       (Inl (Error ''options_ui and options_page cannot both be defined in manifest.json.''),
        st\<lparr>cache := assign_cacheValues paths (cache st)\<rparr>)
     \<and> deriveFiles_calls (snd (options_hook cfg env options st)) = deriveFiles_calls st
     \<and> cache_input (cache (snd (options_hook cfg env options st))) = cache_input (cache st)
     \<and> cache_assets (cache (snd (options_hook cfg env options st))) = cache_assets (cache st)
     \<and> cache_contentScripts (cache (snd (options_hook cfg env options st)))
         = cache_contentScripts (cache st)
     \<and> cache_manifest (cache (snd (options_hook cfg env options st))) = None"
proof -
  have "options_hook cfg env options st =
       (Inl (Error ''options_ui and options_page cannot both be defined in manifest.json.''),
        st\<lparr>cache := assign_cacheValues paths (cache st)\<rparr>)"
    using assms(1) load_manifest_conflict [OF assms(2-6), of cfg st]
    by (simp add: options_hook_def)
  then show ?thesis
    using assms(1) by (simp add: assign_cacheValues_def)
qed


theorem options_hook_options_conflict_witness:
  "options_hook default_plugin_options conflict_env example_options initial_state =
     (Inl (Error ''options_ui and options_page cannot both be defined in manifest.json.''),
      initial_state)
   \<and> deriveFiles_calls (snd (options_hook default_plugin_options conflict_env example_options
        initial_state)) = 0"
proof -
  let ?paths = "\<lparr>inputManifestPath = ''/src/manifest.json'', inputAry = None, inputObj = None\<rparr>"
  let ?loaded = "\<lparr>isEmpty = False,
               config = empty_manifest
                 \<lparr>options_page := Some ''options.html'',
                  options_ui := Some \<lparr>ui_page = Some ''options.html''\<rparr>\<rparr>,
               filepath = ''/src/manifest.json''\<rparr>"
  have none: "cache_manifest (cache initial_state) = None"
    by (simp add: initial_state_def initial_cache_def)
  have path: "getInputManifestPath conflict_env example_options = Inr ?paths"
    by (simp add: getInputManifestPath_def example_options_def validateFileName_def
        conflict_env_def node_env_def)
  have load: "explorer_load conflict_env (inputManifestPath ?paths) = Inr ?loaded"
    by (simp add: conflict_env_def node_env_def)
  have checks: "\<not> isEmpty ?loaded" "isPresent (options_page (config ?loaded))"
    "isPresent (options_ui (config ?loaded))"
    by (simp_all add: isPresent_def)
  have same: "initial_state\<lparr>cache := assign_cacheValues ?paths (cache initial_state)\<rparr>
                = initial_state"
    by (simp add: assign_cacheValues_def)
  have zero: "deriveFiles_calls initial_state = 0"
    by (simp add: initial_state_def)
  show ?thesis
    using options_hook_options_conflict [OF none path load checks, of default_plugin_options]
      same zero
    by simp
qed


end
